theory Spec2Isabelle
  imports Main
begin

section \<open>Data model of the cache controller\<close>

text \<open>
  The development embeds \<^verbatim>\<open>src/lib/controllers/CacheController.ts\<close> and the one
  expression of \<^verbatim>\<open>src/components/core/grids/Grids.svelte\<close> that reads the page count.
  Svelte stores and module-level cache objects are fields of one \<open>state\<close> record that
  every operation takes and returns; a rejected promise is the \<open>Inl\<close> of a sum, and the
  state that comes with it holds the writes made before the rejection.
\<close>

text \<open>
  Modelled from the spec: the enums \<^verbatim>\<open>GridTypes\<close> and \<^verbatim>\<open>Platforms\<close> are declared in
  \<^verbatim>\<open>Stores\<close>, which is not among the sources. The controller names the five grid types
  (\<open>init\<close>, lines 68-106) and the two platforms (\<open>fetchGrids\<close>, lines 293 and 325).
\<close>

datatype GridTypes = CAPSULE | WIDE_CAPSULE | HERO | LOGO | ICON

datatype Platforms = STEAM | NON_STEAM

text \<open>
  Modelled from the spec: the string value of each grid type, which the controller uses
  as directory name, as cache key and in the name of the client method.
\<close>

fun gridTypeString :: "GridTypes \<Rightarrow> string" where
  "gridTypeString CAPSULE = ''Capsule''"
| "gridTypeString WIDE_CAPSULE = ''Wide Capsule''"
| "gridTypeString HERO = ''Hero''"
| "gridTypeString LOGO = ''Logo''"
| "gridTypeString ICON = ''Icon''"

text \<open>
  The records of \<^verbatim>\<open>models/SGDB\<close> with the fields the controller reads and writes:
  \<^verbatim>\<open>game.id\<close>, \<^verbatim>\<open>game.name\<close>, \<^verbatim>\<open>game.numResultPages\<close> (absent until annotated).
\<close>

record SGDBGame =
  game_id :: int
  game_name :: string
  numResultPages :: "nat option"

record SGDBImage =
  image_id :: int
  image_url :: string

text \<open>A rejected promise: of the SGDB client, or of the download command.\<close>

datatype error = ClientError string | DownloadError string

subsection \<open>Number.prototype.toString on integers\<close>

text \<open>
  App ids, game ids and page numbers are JavaScript numbers that hold integers: ids are
  \<open>int\<close>, pages are \<open>nat\<close>, and \<open>toString\<close> is the decimal rendering, with a minus sign
  for a negative number.
\<close>

definition digitChar :: "nat \<Rightarrow> char" where
  "digitChar d = char_of (48 + d)"

fun digits :: "nat \<Rightarrow> string" where
  "digits n = (if n < 10 then [digitChar n] else digits (n div 10) @ [digitChar (n mod 10)])"

declare digits.simps [simp del]

definition toString :: "int \<Rightarrow> string" where
  "toString i = (if i < 0 then CHR ''-'' # digits (nat (- i)) else digits (nat i))"

text \<open>Reading a decimal rendering back, used to show that distinct numbers get distinct keys.\<close>

definition digitVal :: "char \<Rightarrow> nat" where
  "digitVal c = of_char c - 48"

definition parseNat :: "string \<Rightarrow> nat" where
  "parseNat cs = foldl (\<lambda>a c. 10 * a + digitVal c) 0 cs"

subsection \<open>The SGDB client\<close>

text \<open>
  The client is the remote gateway. Its answers are parameters of the model: one function
  per method the controller calls, from the call's arguments to the value of the promise,
  so a request that is repeated gets the same answer (section 4.3 of the spec: results
  are deterministic from the provider's perspective). \<open>imagesById\<close> and
  \<open>imagesBySteamAppId\<close> take the name of the method the controller computes from the
  grid type; the arguments the controller passes as constants
  (\<^verbatim>\<open>["static", "animated"], "any", "any", "any"\<close>) are left out. The controller's
  \<^verbatim>\<open>client\<close> field is taken to be set (an API key is present), as the grids view checks
  before it calls.
\<close>

record gateway =
  searchGame :: "string \<Rightarrow> error + SGDBGame list"
  getGameBySteamAppId :: "int \<Rightarrow> error + SGDBGame"
  imagesById :: "string \<Rightarrow> int \<Rightarrow> nat \<Rightarrow> error + SGDBImage list"
  imagesBySteamAppId :: "string \<Rightarrow> int \<Rightarrow> error + SGDBImage list"

text \<open>One entry of the log of requests sent to the client.\<close>

datatype call =
  SearchGame string
| GetGameBySteamAppId int
| ImagesById string int nat
| ImagesBySteamAppId string int

subsection \<open>Process-wide state\<close>

text \<open>
  The stores and cache objects of \<^verbatim>\<open>Stores\<close> that the controller reads and writes, the
  set of paths that exist on disk, and \<open>calls\<close>, the log of client requests in the order
  they were sent (the log is an observer: no operation reads it).
  Object keys written \<^verbatim>\<open>appId.toString()\<close> and \<^verbatim>\<open>page.toString()\<close> are strings; the
  search cache and the identity map are indexed by the number itself.
\<close>

record state =
  gridType :: GridTypes
  currentPlatform :: Platforms
  selectedGameName :: string
  steamGridsCache :: "string \<rightharpoonup> (GridTypes \<rightharpoonup> SGDBImage list)"
  nonSteamGridsCache :: "string \<rightharpoonup> (GridTypes \<rightharpoonup> (string \<rightharpoonup> SGDBImage list))"
  steamGridSearchCache :: "int \<rightharpoonup> SGDBGame list"
  steamGridSteamAppIdMap :: "int \<rightharpoonup> string"
  selectedSteamGridGameId :: string
  dowloadingGridId :: "int option"
  files :: "string set"
  calls :: "call list"

section \<open>Grid result cache\<close>

text \<open>\<^verbatim>\<open>String.prototype.includes\<close>: the argument occurs at some position.\<close>

definition includes_str :: "string \<Rightarrow> string \<Rightarrow> bool" where
  "includes_str s sub = list_ex (\<lambda>i. take (length sub) (drop i s) = sub) [0..<Suc (length s)]"

text \<open>
  The method name
  \<^verbatim>\<open>`get${type.includes("Capsule") ? "Grid": (type == GridTypes.HERO ? "Heroe" : type)}sById`\<close>
  with the suffix (\<^verbatim>\<open>sById\<close> or \<^verbatim>\<open>sBySteamAppId\<close>) as argument.
\<close>

definition methodName :: "GridTypes \<Rightarrow> string \<Rightarrow> string" where
  "methodName type suffix =
     ''get'' @ (if includes_str (gridTypeString type) ''Capsule'' then ''Grid''
                else if type = HERO then ''Heroe'' else gridTypeString type) @ suffix"

text \<open>The awaited client call of lines 209, 215 and 222: the request is logged, the answer returned.\<close>

definition clientById :: "gateway \<Rightarrow> GridTypes \<Rightarrow> int \<Rightarrow> nat \<Rightarrow> state \<Rightarrow> (error + SGDBImage list) \<times> state" where
  "clientById gw type appId page s =
     (imagesById gw (methodName type ''sById'') appId page,
      s\<lparr>calls := calls s @ [ImagesById (methodName type ''sById'') appId page]\<rparr>)"

text \<open>The awaited client call of lines 175 and 181.\<close>

definition clientBySteamAppId :: "gateway \<Rightarrow> GridTypes \<Rightarrow> int \<Rightarrow> state \<Rightarrow> (error + SGDBImage list) \<times> state" where
  "clientBySteamAppId gw type appId s =
     (imagesBySteamAppId gw (methodName type ''sBySteamAppId'') appId,
      s\<lparr>calls := calls s @ [ImagesBySteamAppId (methodName type ''sBySteamAppId'') appId]\<rparr>)"

text \<open>\<^verbatim>\<open>fetchGridsForSteamGame\<close> (lines 165-186): two levels, the native-platform cache.\<close>

definition fetchGridsForSteamGame :: "gateway \<Rightarrow> int \<Rightarrow> GridTypes \<Rightarrow> state \<Rightarrow> (error + SGDBImage list) \<times> state" where
  "fetchGridsForSteamGame gw appId type s =
     (case steamGridsCache s (toString appId) of
        Some types \<Rightarrow>
          (case types type of
             Some grids \<Rightarrow> (Inr grids, s)
           | None \<Rightarrow>
               (case clientBySteamAppId gw type appId s of
                  (Inl e, s1) \<Rightarrow> (Inl e, s1)
                | (Inr grids, s1) \<Rightarrow>
                    (Inr grids,
                     s1\<lparr>steamGridsCache := (steamGridsCache s1)(toString appId \<mapsto> types(type \<mapsto> grids))\<rparr>)))
      | None \<Rightarrow>
          (case clientBySteamAppId gw type appId s of
             (Inl e, s1) \<Rightarrow> (Inl e, s1)
           | (Inr grids, s1) \<Rightarrow>
               (Inr grids,
                s1\<lparr>steamGridsCache := (steamGridsCache s1)(toString appId \<mapsto> Map.empty(type \<mapsto> grids))\<rparr>)))"

text \<open>
  \<^verbatim>\<open>fetchGridsForNonSteamGame\<close> (lines 196-228): three levels, game, type and page. Each
  miss awaits the client first and writes the missing levels afterwards; a rejection
  leaves the cache as it was.
\<close>

definition fetchGridsForNonSteamGame :: "gateway \<Rightarrow> int \<Rightarrow> GridTypes \<Rightarrow> nat \<Rightarrow> state \<Rightarrow> (error + SGDBImage list) \<times> state" where
  "fetchGridsForNonSteamGame gw appId type page s =
     (case nonSteamGridsCache s (toString appId) of
        Some types \<Rightarrow>
          (case types type of
             Some pages \<Rightarrow>
               (case pages (toString (int page)) of
                  Some grids \<Rightarrow> (Inr grids, s)
                | None \<Rightarrow>
                    (case clientById gw type appId page s of
                       (Inl e, s1) \<Rightarrow> (Inl e, s1)
                     | (Inr grids, s1) \<Rightarrow>
                         (Inr grids,
                          s1\<lparr>nonSteamGridsCache := (nonSteamGridsCache s1)
                                (toString appId \<mapsto> types(type \<mapsto> pages(toString (int page) \<mapsto> grids)))\<rparr>)))
           | None \<Rightarrow>
               (case clientById gw type appId page s of
                  (Inl e, s1) \<Rightarrow> (Inl e, s1)
                | (Inr grids, s1) \<Rightarrow>
                    (Inr grids,
                     s1\<lparr>nonSteamGridsCache := (nonSteamGridsCache s1)
                           (toString appId \<mapsto> types(type \<mapsto> Map.empty(toString (int page) \<mapsto> grids)))\<rparr>)))
      | None \<Rightarrow>
          (case clientById gw type appId page s of
             (Inl e, s1) \<Rightarrow> (Inl e, s1)
           | (Inr grids, s1) \<Rightarrow>
               (Inr grids,
                s1\<lparr>nonSteamGridsCache := (nonSteamGridsCache s1)
                      (toString appId \<mapsto> Map.empty(type \<mapsto> Map.empty(toString (int page) \<mapsto> grids)))\<rparr>)))"

text \<open>
  The three-level lookup read as one: the list stored for a (game, type, page) triple,
  if every level has its key.
\<close>

definition cachedPage :: "state \<Rightarrow> int \<Rightarrow> GridTypes \<Rightarrow> nat \<Rightarrow> SGDBImage list option" where
  "cachedPage s appId type page =
     (case nonSteamGridsCache s (toString appId) of
        None \<Rightarrow> None
      | Some types \<Rightarrow>
          (case types type of
             None \<Rightarrow> None
           | Some pages \<Rightarrow> pages (toString (int page))))"

section \<open>Page counts\<close>

text \<open>
  \<^verbatim>\<open>getNumPages\<close> (lines 238-243), the placeholder. The callback of \<^verbatim>\<open>results.map\<close> writes
  \<^verbatim>\<open>numResultPages\<close> into each game object and returns the same object; the new array is
  assigned to the parameter and dropped, so what the caller sees is its own array with
  every game annotated. The model returns that array. \<open>platform\<close> and \<open>type\<close> are not read.
\<close>

definition getNumPages :: "SGDBGame list \<Rightarrow> Platforms \<Rightarrow> GridTypes \<Rightarrow> SGDBGame list" where
  "getNumPages results platform type = map (\<lambda>game. game\<lparr>numResultPages := Some 1\<rparr>) results"

text \<open>
  The value the grids view assigns to its \<^verbatim>\<open>numPages\<close> (\<^verbatim>\<open>Grids.svelte\<close>, lines 85 and 105):
  \<^verbatim>\<open>searchCache[selectedAppId]?.find((game) => game.id.toString() == $selectedSteamGridGameId)?.numResultPages ?? 3\<close>.
\<close>

definition gridsNumPages :: "(int \<rightharpoonup> SGDBGame list) \<Rightarrow> int \<Rightarrow> string \<Rightarrow> nat" where
  "gridsNumPages searchCache selectedAppId selectedId =
     (case searchCache selectedAppId of
        None \<Rightarrow> 3
      | Some games \<Rightarrow>
          (case find (\<lambda>game. toString (game_id game) = selectedId) games of
             None \<Rightarrow> 3
           | Some game \<Rightarrow> (case numResultPages game of None \<Rightarrow> 3 | Some n \<Rightarrow> n)))"




section \<open>Search result cache and identity map\<close>

text \<open>
  Lines 294-304 of \<^verbatim>\<open>fetchGrids\<close>, repeated as lines 326-336 (the spec's
  \<open>getCandidates\<close>): the candidates stored for the app, or else the result of one name
  search, annotated by \<open>getNumPages\<close> and stored. Both branches pass \<^verbatim>\<open>Platforms.STEAM\<close>.
\<close>

definition getCandidates :: "gateway \<Rightarrow> int \<Rightarrow> state \<Rightarrow> (error + SGDBGame list) \<times> state" where
  "getCandidates gw appId s =
     (case steamGridSearchCache s appId of
        Some results \<Rightarrow> (Inr results, s)
      | None \<Rightarrow>
          (case searchGame gw (selectedGameName s) of
             Inl e \<Rightarrow> (Inl e, s\<lparr>calls := calls s @ [SearchGame (selectedGameName s)]\<rparr>)
           | Inr found \<Rightarrow>
               (Inr (getNumPages found STEAM (gridType s)),
                s\<lparr>calls := calls s @ [SearchGame (selectedGameName s)],
                  steamGridSearchCache :=
                    (steamGridSearchCache s)(appId \<mapsto> getNumPages found STEAM (gridType s))\<rparr>)))"

text \<open>
  Lines 306-312 (the spec's \<open>resolveProviderId\<close>): the identity stored for the app, or
  else the result of one direct lookup, stored as a string. A rejected lookup, and a
  lookup that yields no game (\<^verbatim>\<open>gameInfo.id\<close> then throws), are the \<open>Inl\<close> of the client.
\<close>

definition resolveProviderId :: "gateway \<Rightarrow> int \<Rightarrow> state \<Rightarrow> (error + string) \<times> state" where
  "resolveProviderId gw appId s =
     (case steamGridSteamAppIdMap s appId of
        Some gameId \<Rightarrow> (Inr gameId, s)
      | None \<Rightarrow>
          (case getGameBySteamAppId gw appId of
             Inl e \<Rightarrow> (Inl e, s\<lparr>calls := calls s @ [GetGameBySteamAppId appId]\<rparr>)
           | Inr gameInfo \<Rightarrow>
               (Inr (toString (game_id gameInfo)),
                s\<lparr>calls := calls s @ [GetGameBySteamAppId appId],
                  steamGridSteamAppIdMap :=
                    (steamGridSteamAppIdMap s)(appId \<mapsto> toString (game_id gameInfo))\<rparr>)))"

text \<open>Observer: the number of name searches in the request log.\<close>

fun isSearch :: "call \<Rightarrow> bool" where
  "isSearch (SearchGame name) = True"
| "isSearch other = False"

definition searchCalls :: "state \<Rightarrow> nat" where
  "searchCalls s = length (filter isSearch (calls s))"

text \<open>Observer: the number of direct identity lookups for an app in the request log.\<close>

definition lookupCalls :: "state \<Rightarrow> int \<Rightarrow> nat" where
  "lookupCalls s appId = count_list (calls s) (GetGameBySteamAppId appId)"

section \<open>The orchestrator\<close>

text \<open>
  \<^verbatim>\<open>results.find(p)\<close> followed by
  \<^verbatim>\<open>if (!choosenResult && results.length > 0) choosenResult = results[0]\<close> (lines 315, 339).
\<close>

definition choosenResult :: "(SGDBGame \<Rightarrow> bool) \<Rightarrow> SGDBGame list \<Rightarrow> SGDBGame option" where
  "choosenResult p results =
     (case find p results of
        Some game \<Rightarrow> Some game
      | None \<Rightarrow> if length results > 0 then Some (results ! 0) else None)"

text \<open>
  The predicate of line 314. \<^verbatim>\<open>selectedSteamGridId ? ... : ...\<close> takes the first branch
  for a string that is present and not empty.
\<close>

definition steamPredicate :: "string option \<Rightarrow> string \<Rightarrow> SGDBGame \<Rightarrow> bool" where
  "steamPredicate selectedSteamGridId gameId =
     (case selectedSteamGridId of
        Some sel \<Rightarrow>
          if sel \<noteq> [] then (\<lambda>game. toString (game_id game) = sel)
          else (\<lambda>game. toString (game_id game) = gameId)
      | None \<Rightarrow> (\<lambda>game. toString (game_id game) = gameId))"

text \<open>The predicate of line 338.\<close>

definition nonSteamPredicate :: "string option \<Rightarrow> string \<Rightarrow> SGDBGame \<Rightarrow> bool" where
  "nonSteamPredicate selectedSteamGridId gameName =
     (case selectedSteamGridId of
        Some sel \<Rightarrow>
          if sel \<noteq> [] then (\<lambda>game. toString (game_id game) = sel)
          else (\<lambda>game. game_name game = gameName)
      | None \<Rightarrow> (\<lambda>game. game_name game = gameName))"

text \<open>
  Lines 317-324 and 341-348. \<^verbatim>\<open>choosenResult?.id\<close> is truthy for a game whose id is not 0;
  then the selection store is set and the page fetched through the three-level cache
  (the \<^verbatim>\<open>set\<close> of the search cache store passes the object it already holds). Otherwise
  the result is the empty list.
\<close>

definition fetchChoosen ::
  "gateway \<Rightarrow> SGDBGame option \<Rightarrow> nat \<Rightarrow> state \<Rightarrow> (error + SGDBImage list) \<times> state" where
  "fetchChoosen gw choosen page s =
     (case choosen of
        Some game \<Rightarrow>
          if game_id game \<noteq> 0 then
            fetchGridsForNonSteamGame gw (game_id game) (gridType s) page
              (s\<lparr>selectedSteamGridGameId := toString (game_id game)\<rparr>)
          else (Inr [], s)
      | None \<Rightarrow> (Inr [], s))"

text \<open>\<^verbatim>\<open>fetchGrids\<close> (lines 288-350).\<close>

definition fetchGrids ::
  "gateway \<Rightarrow> int \<Rightarrow> nat \<Rightarrow> string option \<Rightarrow> state \<Rightarrow> (error + SGDBImage list) \<times> state" where
  "fetchGrids gw appId page selectedSteamGridId s =
     (case currentPlatform s of
        STEAM \<Rightarrow>
          (case getCandidates gw appId s of
             (Inl e, s1) \<Rightarrow> (Inl e, s1)
           | (Inr results, s1) \<Rightarrow>
               (case resolveProviderId gw appId s1 of
                  (Inl e, s2) \<Rightarrow> (Inl e, s2)
                | (Inr gameId, s2) \<Rightarrow>
                    fetchChoosen gw
                      (choosenResult (steamPredicate selectedSteamGridId gameId) results) page s2))
      | NON_STEAM \<Rightarrow>
          (case getCandidates gw appId s of
             (Inl e, s1) \<Rightarrow> (Inl e, s1)
           | (Inr results, s1) \<Rightarrow>
               fetchChoosen gw
                 (choosenResult (nonSteamPredicate selectedSteamGridId (selectedGameName s1)) results)
                 page s1))"

text \<open>
  The resolution rule in the spec's words: prefer the first candidate that matches,
  else the first candidate; match on the explicit selection when one is supplied (a
  string that is present and not empty), else on the directly resolved identity for a
  native entry and on the display name for a non-native one.
\<close>

definition preferred :: "(SGDBGame \<Rightarrow> bool) \<Rightarrow> SGDBGame list \<Rightarrow> SGDBGame" where
  "preferred p results = (case filter p results of [] \<Rightarrow> hd results | game # others \<Rightarrow> game)"

definition resolvedCandidate ::
  "Platforms \<Rightarrow> string option \<Rightarrow> string \<Rightarrow> string \<Rightarrow> SGDBGame list \<Rightarrow> SGDBGame" where
  "resolvedCandidate platform selectedSteamGridId gameId gameName results =
     (if selectedSteamGridId \<noteq> None \<and> selectedSteamGridId \<noteq> Some [] then
        preferred (\<lambda>game. toString (game_id game) = the selectedSteamGridId) results
      else
        (case platform of
           STEAM \<Rightarrow> preferred (\<lambda>game. toString (game_id game) = gameId) results
         | NON_STEAM \<Rightarrow> preferred (\<lambda>game. game_name game = gameName) results))"

text \<open>
  The identity the direct lookup resolves for an app, read off the identity map and the
  client: the identity the map holds, else the id of the game the client answers with,
  else the error of the rejected lookup.
\<close>

definition resolvedIdentity :: "gateway \<Rightarrow> state \<Rightarrow> int \<Rightarrow> error + string" where
  "resolvedIdentity gw s appId =
     (case steamGridSteamAppIdMap s appId of
        Some gameId \<Rightarrow> Inr gameId
      | None \<Rightarrow>
          (case getGameBySteamAppId gw appId of
             Inl e \<Rightarrow> Inl e
           | Inr gameInfo \<Rightarrow> Inr (toString (game_id gameInfo))))"

section \<open>Disk blob store\<close>

text \<open>
  What the controller needs from outside the repository's sources, as parameters: its
  own field \<^verbatim>\<open>gridCacheDirPath\<close> (set by \<open>init\<close>), Tauri's \<^verbatim>\<open>path.join\<close>, and the outcome
  of the awaited \<^verbatim>\<open>RustInterop.downloadGrid(imageURL, localImagePath)\<close>: the promise
  resolves with the success flag, or it is rejected. \<^verbatim>\<open>path.join\<close> and \<^verbatim>\<open>fs.exists\<close> are
  taken to resolve.
\<close>

record host =
  gridCacheDirPath :: string
  pathJoin :: "string list \<Rightarrow> string"
  downloadGrid :: "string \<Rightarrow> string \<Rightarrow> error + bool"

text \<open>
  \<^verbatim>\<open>String.prototype.lastIndexOf\<close> for a one-character pattern: the last index at which
  the character stands, or -1. The scan runs over the string once, with the current
  index and the last index found so far.
\<close>

fun lastIndexFrom :: "string \<Rightarrow> char \<Rightarrow> int \<Rightarrow> int \<Rightarrow> int" where
  "lastIndexFrom [] c i found = found"
| "lastIndexFrom (x # xs) c i found = lastIndexFrom xs c (i + 1) (if x = c then i else found)"

definition lastIndexOf :: "string \<Rightarrow> char \<Rightarrow> int" where
  "lastIndexOf s c = lastIndexFrom s c 0 (- 1)"

text \<open>\<^verbatim>\<open>String.prototype.substring\<close> with one argument; a negative start counts as 0.\<close>

definition substring :: "string \<Rightarrow> int \<Rightarrow> string" where
  "substring s start = drop (nat start) s"

text \<open>Lines 128-129 of \<^verbatim>\<open>getGridImage\<close> (the spec's \<open>resolveLocalPath\<close>).\<close>

definition resolveLocalPath :: "host \<Rightarrow> GridTypes \<Rightarrow> string \<Rightarrow> string" where
  "resolveLocalPath h type imageURL =
     (let fileName = substring imageURL (lastIndexOf imageURL CHR ''/'' + 1)
      in pathJoin h [gridCacheDirPath h, gridTypeString type, fileName])"

text \<open>
  \<^verbatim>\<open>getGridImage\<close> (lines 126-156). The store is set to the app id before the download
  is awaited and back to \<^verbatim>\<open>null\<close> after it; nothing catches a rejection of the download,
  so a rejected download ends the call between the two writes.
  Modelled from the spec: \<^verbatim>\<open>RustInterop.downloadGrid\<close> is not among the sources; a
  download that resolves with success has written the file at the local path, one that
  resolves with failure or is rejected has written nothing.
\<close>

definition getGridImage :: "host \<Rightarrow> int \<Rightarrow> string \<Rightarrow> state \<Rightarrow> (error + string) \<times> state" where
  "getGridImage h appId imageURL s =
     (let localImagePath = resolveLocalPath h (gridType s) imageURL
      in if localImagePath \<notin> files s then
           (let s1 = s\<lparr>dowloadingGridId := Some appId\<rparr>
            in case downloadGrid h imageURL localImagePath of
                 Inl e \<Rightarrow> (Inl e, s1)
               | Inr success \<Rightarrow>
                   (let s2 = (if success then s1\<lparr>files := insert localImagePath (files s1)\<rparr> else s1)
                    in (Inr localImagePath, s2\<lparr>dowloadingGridId := None\<rparr>)))
         else (Inr localImagePath, s))"

section \<open>Scenarios\<close>

text \<open>
  The concrete inputs at which the theorems below are evaluated: the state of a fresh
  process (every cache empty, the selection at the \<^verbatim>\<open>"None"\<close> the grids view starts
  with), and a client that knows one game, \<open>Foo\<close>, with one page of one image.
\<close>

definition startState :: "GridTypes \<Rightarrow> Platforms \<Rightarrow> string \<Rightarrow> state" where
  "startState type platform name =
     \<lparr>gridType = type, currentPlatform = platform, selectedGameName = name,
      steamGridsCache = Map.empty, nonSteamGridsCache = Map.empty,
      steamGridSearchCache = Map.empty, steamGridSteamAppIdMap = Map.empty,
      selectedSteamGridGameId = ''None'', dowloadingGridId = None, files = {}, calls = []\<rparr>"

definition img1 :: SGDBImage where
  "img1 = \<lparr>image_id = 1, image_url = ''https://cdn2.steamgriddb.com/grid/a.png''\<rparr>"

definition gameFoo :: SGDBGame where
  "gameFoo = \<lparr>game_id = 5, game_name = ''Foo'', numResultPages = None\<rparr>"

definition gwFoo :: gateway where
  "gwFoo =
     \<lparr>searchGame = (\<lambda>name. if name = ''Foo'' then Inr [gameFoo] else Inr []),
      getGameBySteamAppId =
        (\<lambda>appId. if appId = 100 then Inr gameFoo else Inl (ClientError ''Game not found'')),
      imagesById = (\<lambda>method gid page. if gid = 5 \<and> page = 0 then Inr [img1] else Inr []),
      imagesBySteamAppId = (\<lambda>method appId. Inr [])\<rparr>"

text \<open>
  A client with two games: \<open>Foo\<close> (id 5) has two pages and then an empty one, \<open>Bar\<close>
  (id 7) has one page and then a request that is rejected.
\<close>

definition gameBar :: SGDBGame where
  "gameBar = \<lparr>game_id = 7, game_name = ''Bar'', numResultPages = None\<rparr>"

definition gwPages :: gateway where
  "gwPages =
     \<lparr>searchGame = (\<lambda>name. Inr [gameFoo, gameBar]),
      getGameBySteamAppId = (\<lambda>appId. Inr gameFoo),
      imagesById =
        (\<lambda>method gid page.
           if gid = 5 then (if page < 2 then Inr [img1] else Inr [])
           else if page = 0 then Inr [img1] else Inl (ClientError ''timeout'')),
      imagesBySteamAppId = (\<lambda>method appId. Inr [])\<rparr>"

text \<open>
  The spec's scenario for a non-native entry named \<open>Bar\<close>: the search finds \<open>Baz\<close>
  (id 1) and \<open>Bar\<close> (id 2), in this order.
\<close>

definition candBaz :: SGDBGame where
  "candBaz = \<lparr>game_id = 1, game_name = ''Baz'', numResultPages = None\<rparr>"

definition candBar :: SGDBGame where
  "candBar = \<lparr>game_id = 2, game_name = ''Bar'', numResultPages = None\<rparr>"

definition gwBar :: gateway where
  "gwBar =
     \<lparr>searchGame = (\<lambda>name. Inr [candBaz, candBar]),
      getGameBySteamAppId = (\<lambda>appId. Inl (ClientError ''Game not found'')),
      imagesById = (\<lambda>method gid page. if gid = 2 \<and> page = 0 then Inr [img1] else Inr []),
      imagesBySteamAppId = (\<lambda>method appId. Inr [])\<rparr>"

text \<open>A direct lookup that answers with \<open>Bar\<close> for every app.\<close>

definition lookupBar :: "int \<Rightarrow> error + SGDBGame" where
  "lookupBar appId = Inr gameBar"

text \<open>
  Two hosts whose \<^verbatim>\<open>path.join\<close> joins with a slash: the downloads of the first all
  resolve with the failure flag, those of the second are all rejected.
\<close>

fun joinSlash :: "string list \<Rightarrow> string" where
  "joinSlash [] = []"
| "joinSlash [p] = p"
| "joinSlash (p # q # ps) = p @ ''/'' @ joinSlash (q # ps)"

definition hostOffline :: host where
  "hostOffline =
     \<lparr>gridCacheDirPath = ''/cache/grids'', pathJoin = joinSlash,
      downloadGrid = (\<lambda>imageURL localImagePath. Inr False)\<rparr>"

definition hostRejecting :: host where
  "hostRejecting =
     \<lparr>gridCacheDirPath = ''/cache/grids'', pathJoin = joinSlash,
      downloadGrid = (\<lambda>imageURL localImagePath. Inl (DownloadError ''connection reset''))\<rparr>"

section \<open>Decimal keys are injective\<close>

lemma digitVal_digitChar: "d < 10 \<Longrightarrow> digitVal (digitChar d) = d"
  by (simp add: digitVal_def digitChar_def)

lemma digitChar_not_minus: "d < 10 \<Longrightarrow> digitChar d \<noteq> CHR ''-''"
proof
  assume d: "d < 10" and eq: "digitChar d = CHR ''-''"
  from eq have "(of_char (digitChar d) :: nat) = of_char CHR ''-''" by simp
  with d show False by (simp add: digitChar_def)
qed

text \<open>Reading the digits back gives the number, so \<open>digits\<close> loses nothing.\<close>

lemma parseNat_digits: "parseNat (digits n) = n"
proof (induction n rule: digits.induct)
  case (1 n)
  show ?case
  proof (cases "n < 10")
    case True
    then show ?thesis by (simp add: digits.simps [of n] parseNat_def digitVal_digitChar)
  next
    case False
    with 1 have "parseNat (digits (n div 10)) = n div 10" by simp
    with False show ?thesis
      by (simp add: digits.simps [of n] parseNat_def digitVal_digitChar)
  qed
qed

lemma digits_inj: "digits m = digits n \<Longrightarrow> m = n"
  by (metis parseNat_digits)

lemma hd_digits: "\<exists>d cs. d < 10 \<and> digits n = digitChar d # cs"
proof (induction n rule: digits.induct)
  case (1 n)
  show ?case
  proof (cases "n < 10")
    case True
    then show ?thesis by (auto simp: digits.simps [of n])
  next
    case False
    with 1 obtain d cs where "d < 10" "digits (n div 10) = digitChar d # cs" by blast
    with False show ?thesis by (auto simp: digits.simps [of n])
  qed
qed

lemma digits_not_minus: "digits n \<noteq> CHR ''-'' # cs"
proof
  assume eq: "digits n = CHR ''-'' # cs"
  obtain d ds where d: "d < 10" and "digits n = digitChar d # ds"
    using hd_digits by blast
  with eq have "digitChar d = CHR ''-''" by simp
  with d show False using digitChar_not_minus by blast
qed

lemma toString_inj: "toString i = toString j \<Longrightarrow> i = j"
  by (auto simp: toString_def digits_not_minus digits_not_minus [symmetric]
           split: if_splits dest!: digits_inj)

lemma toString_eq_iff [simp]: "toString i = toString j \<longleftrightarrow> i = j"
  using toString_inj by blast

section \<open>Properties of the grid result cache\<close>

lemma cachedPage_hit:
  "cachedPage s appId type page = Some grids \<Longrightarrow>
   fetchGridsForNonSteamGame gw appId type page s = (Inr grids, s)"
  by (auto simp: cachedPage_def fetchGridsForNonSteamGame_def split: option.splits)


lemma fetch_miss_Inr:
  assumes "cachedPage s appId type page = None"
    and "imagesById gw (methodName type ''sById'') appId page = Inr grids"
  shows "fst (fetchGridsForNonSteamGame gw appId type page s) = Inr grids"
    and "calls (snd (fetchGridsForNonSteamGame gw appId type page s)) =
           calls s @ [ImagesById (methodName type ''sById'') appId page]"
    and "cachedPage (snd (fetchGridsForNonSteamGame gw appId type page s)) a t p =
           (if a = appId \<and> t = type \<and> p = page then Some grids else cachedPage s a t p)"
  using assms
  by (auto simp: cachedPage_def fetchGridsForNonSteamGame_def clientById_def split: option.splits)

text \<open>
  C1. A (game, type, page) triple that the cache does not hold is fetched from the client
  with exactly one request, for that page; the answer is returned and stored under all
  three levels, and no other triple changes. A second call for the same triple, whatever
  the client would answer now, returns the stored list and leaves the whole state, the
  request log included, as it is.
\<close>

theorem fetchGridsForNonSteamGame_once:
  assumes miss: "cachedPage s appId type page = None"
    and answer: "imagesById gw (methodName type ''sById'') appId page = Inr grids"
  shows "fst (fetchGridsForNonSteamGame gw appId type page s) = Inr grids
       \<and> calls (snd (fetchGridsForNonSteamGame gw appId type page s)) =
           calls s @ [ImagesById (methodName type ''sById'') appId page]
       \<and> cachedPage (snd (fetchGridsForNonSteamGame gw appId type page s)) appId type page = Some grids
       \<and> (\<forall>a t p. (a, t, p) \<noteq> (appId, type, page) \<longrightarrow>
            cachedPage (snd (fetchGridsForNonSteamGame gw appId type page s)) a t p = cachedPage s a t p)
       \<and> fetchGridsForNonSteamGame gw2 appId type page (snd (fetchGridsForNonSteamGame gw appId type page s)) =
           (Inr grids, snd (fetchGridsForNonSteamGame gw appId type page s))"
proof -
  let ?s' = "snd (fetchGridsForNonSteamGame gw appId type page s)"
  have stored: "cachedPage ?s' appId type page = Some grids"
    using fetch_miss_Inr(3) [OF miss answer, of appId type page] by simp
  have frame: "\<forall>a t p. (a, t, p) \<noteq> (appId, type, page) \<longrightarrow> cachedPage ?s' a t p = cachedPage s a t p"
    using fetch_miss_Inr(3) [OF miss answer] by auto
  show ?thesis
    using fetch_miss_Inr(1,2) [OF miss answer] stored frame cachedPage_hit [OF stored]
    by simp
qed

lemma toString_5: "toString 5 = ''5''"
  by code_simp

lemma toString_0: "toString 0 = ''0''"
  by code_simp

lemma methodName_CAPSULE: "methodName CAPSULE ''sById'' = ''getGridsById''"
  by code_simp

text \<open>The client methods the five grid types are dispatched to; both capsule types share one.\<close>

lemma methodName_values:
  "methodName CAPSULE ''sById'' = ''getGridsById''"
  "methodName WIDE_CAPSULE ''sById'' = ''getGridsById''"
  "methodName HERO ''sById'' = ''getHeroesById''"
  "methodName LOGO ''sById'' = ''getLogosById''"
  "methodName ICON ''sById'' = ''getIconsById''"
  by code_simp+

theorem fetchGridsForNonSteamGame_once_witness:
  "cachedPage (startState CAPSULE NON_STEAM ''Foo'') 5 CAPSULE 0 = None
 \<and> imagesById gwFoo (methodName CAPSULE ''sById'') 5 0 = Inr [img1]
 \<and> fst (fetchGridsForNonSteamGame gwFoo 5 CAPSULE 0 (startState CAPSULE NON_STEAM ''Foo'')) = Inr [img1]
 \<and> calls (snd (fetchGridsForNonSteamGame gwFoo 5 CAPSULE 0 (startState CAPSULE NON_STEAM ''Foo''))) =
     [ImagesById ''getGridsById'' 5 0]
 \<and> cachedPage (snd (fetchGridsForNonSteamGame gwFoo 5 CAPSULE 0 (startState CAPSULE NON_STEAM ''Foo''))) 5 CAPSULE 0 =
     Some [img1]
 \<and> fst (fetchGridsForNonSteamGame gwFoo 5 CAPSULE 0
      (snd (fetchGridsForNonSteamGame gwFoo 5 CAPSULE 0 (startState CAPSULE NON_STEAM ''Foo'')))) = Inr [img1]
 \<and> calls (snd (fetchGridsForNonSteamGame gwFoo 5 CAPSULE 0
      (snd (fetchGridsForNonSteamGame gwFoo 5 CAPSULE 0 (startState CAPSULE NON_STEAM ''Foo''))))) =
     [ImagesById ''getGridsById'' 5 0]"
proof -
  have miss: "cachedPage (startState CAPSULE NON_STEAM ''Foo'') 5 CAPSULE 0 = None"
    by (simp add: cachedPage_def startState_def)
  have answer: "imagesById gwFoo (methodName CAPSULE ''sById'') 5 0 = Inr [img1]"
    by (simp add: gwFoo_def)
  have start: "calls (startState CAPSULE NON_STEAM ''Foo'') = []"
    by (simp add: startState_def)
  show ?thesis
    using fetchGridsForNonSteamGame_once [OF miss answer, of gwFoo] miss answer start
    by (simp add: methodName_CAPSULE)
qed

section \<open>Pagination discovery\<close>

lemma fst_fetch:
  "fst (fetchGridsForNonSteamGame gw appId type page s) =
     (case cachedPage s appId type page of
        Some grids \<Rightarrow> Inr grids
      | None \<Rightarrow> imagesById gw (methodName type ''sById'') appId page)"
  by (auto simp: cachedPage_def fetchGridsForNonSteamGame_def clientById_def
           split: option.splits sum.splits)

lemma cachedPage_calls [simp]: "cachedPage (s\<lparr>calls := c\<rparr>) = cachedPage s"
  by (simp add: cachedPage_def fun_eq_iff)

lemma cachedPage_startState: "cachedPage (startState type platform name) a t p = None"
  by (simp add: cachedPage_def startState_def)









section \<open>Properties of the search result cache\<close>

lemma searchCalls_upd [simp]:
  "searchCalls (s\<lparr>selectedSteamGridGameId := x\<rparr>) = searchCalls s"
  by (simp add: searchCalls_def)

lemma fetch_frame:
  "steamGridSearchCache (snd (fetchGridsForNonSteamGame gw a t p s)) = steamGridSearchCache s"
  "steamGridSteamAppIdMap (snd (fetchGridsForNonSteamGame gw a t p s)) = steamGridSteamAppIdMap s"
  "steamGridsCache (snd (fetchGridsForNonSteamGame gw a t p s)) = steamGridsCache s"
  "selectedSteamGridGameId (snd (fetchGridsForNonSteamGame gw a t p s)) = selectedSteamGridGameId s"
  "searchCalls (snd (fetchGridsForNonSteamGame gw a t p s)) = searchCalls s"
  by (auto simp: fetchGridsForNonSteamGame_def clientById_def searchCalls_def
           split: option.splits sum.splits)

lemma fetchChoosen_frame:
  "steamGridSearchCache (snd (fetchChoosen gw c p s)) = steamGridSearchCache s"
  "steamGridSteamAppIdMap (snd (fetchChoosen gw c p s)) = steamGridSteamAppIdMap s"
  "steamGridsCache (snd (fetchChoosen gw c p s)) = steamGridsCache s"
  "searchCalls (snd (fetchChoosen gw c p s)) = searchCalls s"
  by (auto simp: fetchChoosen_def fetch_frame split: option.splits)

lemma resolveProviderId_frame:
  "steamGridSearchCache (snd (resolveProviderId gw a s)) = steamGridSearchCache s"
  "nonSteamGridsCache (snd (resolveProviderId gw a s)) = nonSteamGridsCache s"
  "steamGridsCache (snd (resolveProviderId gw a s)) = steamGridsCache s"
  "selectedSteamGridGameId (snd (resolveProviderId gw a s)) = selectedSteamGridGameId s"
  "gridType (snd (resolveProviderId gw a s)) = gridType s"
  "searchCalls (snd (resolveProviderId gw a s)) = searchCalls s"
  by (auto simp: resolveProviderId_def searchCalls_def split: option.splits sum.splits)

lemma getCandidates_frame:
  "steamGridSteamAppIdMap (snd (getCandidates gw a s)) = steamGridSteamAppIdMap s"
  "nonSteamGridsCache (snd (getCandidates gw a s)) = nonSteamGridsCache s"
  "steamGridsCache (snd (getCandidates gw a s)) = steamGridsCache s"
  "selectedSteamGridGameId (snd (getCandidates gw a s)) = selectedSteamGridGameId s"
  "gridType (snd (getCandidates gw a s)) = gridType s"
  "selectedGameName (snd (getCandidates gw a s)) = selectedGameName s"
  "currentPlatform (snd (getCandidates gw a s)) = currentPlatform s"
  by (auto simp: getCandidates_def split: option.splits sum.splits)

lemma getCandidates_hit:
  "steamGridSearchCache s appId = Some results \<Longrightarrow> getCandidates gw appId s = (Inr results, s)"
  by (simp add: getCandidates_def)

lemma getCandidates_miss:
  assumes "steamGridSearchCache s appId = None"
    and "searchGame gw (selectedGameName s) = Inr found"
  shows "fst (getCandidates gw appId s) = Inr (getNumPages found STEAM (gridType s))"
    and "calls (snd (getCandidates gw appId s)) = calls s @ [SearchGame (selectedGameName s)]"
    and "steamGridSearchCache (snd (getCandidates gw appId s)) appId =
           Some (getNumPages found STEAM (gridType s))"
    and "searchCalls (snd (getCandidates gw appId s)) = searchCalls s + 1"
  using assms by (simp_all add: getCandidates_def searchCalls_def)

lemma resolveProviderId_frame':
  assumes "resolveProviderId gw a s = (r, s')"
  shows "steamGridSearchCache s' = steamGridSearchCache s"
    and "nonSteamGridsCache s' = nonSteamGridsCache s"
    and "steamGridsCache s' = steamGridsCache s"
    and "selectedSteamGridGameId s' = selectedSteamGridGameId s"
    and "gridType s' = gridType s"
    and "searchCalls s' = searchCalls s"
  using resolveProviderId_frame [of gw a s] assms by simp_all

text \<open>fetchGrids in terms of the state after the candidates step.\<close>

lemma fetchGrids_after_candidates:
  assumes "getCandidates gw appId s = (Inr results, s1)"
  shows "steamGridSearchCache (snd (fetchGrids gw appId page sel s)) = steamGridSearchCache s1"
    and "searchCalls (snd (fetchGrids gw appId page sel s)) = searchCalls s1"
  using assms
  by (auto simp: fetchGrids_def fetchChoosen_frame resolveProviderId_frame'
           split: Platforms.splits prod.splits sum.splits)

text \<open>
  C2. For an app that the search cache does not hold, the candidates step sends exactly
  one name search, annotates the result and stores it; run again on the state it left,
  with any client, it returns the same list and changes nothing. Seen from \<open>fetchGrids\<close>:
  the first call adds one search to the log, a second call for the same app (any page,
  any selection, any client) adds none, and the stored list is the same after both.
\<close>

theorem getCandidates_once:
  assumes miss: "steamGridSearchCache s appId = None"
    and found: "searchGame gw (selectedGameName s) = Inr found"
  shows "fst (getCandidates gw appId s) = Inr (getNumPages found STEAM (gridType s))
       \<and> calls (snd (getCandidates gw appId s)) = calls s @ [SearchGame (selectedGameName s)]
       \<and> steamGridSearchCache (snd (getCandidates gw appId s)) appId =
           Some (getNumPages found STEAM (gridType s))
       \<and> getCandidates gw2 appId (snd (getCandidates gw appId s)) =
           (Inr (getNumPages found STEAM (gridType s)), snd (getCandidates gw appId s))
       \<and> searchCalls (snd (fetchGrids gw appId page sel s)) = searchCalls s + 1
       \<and> steamGridSearchCache (snd (fetchGrids gw appId page sel s)) appId =
           Some (getNumPages found STEAM (gridType s))
       \<and> searchCalls (snd (fetchGrids gw2 appId page2 sel2 (snd (fetchGrids gw appId page sel s)))) =
           searchCalls s + 1
       \<and> steamGridSearchCache (snd (fetchGrids gw2 appId page2 sel2 (snd (fetchGrids gw appId page sel s)))) appId =
           Some (getNumPages found STEAM (gridType s))"
proof -
  let ?rs = "getNumPages found STEAM (gridType s)"
  let ?s1 = "snd (getCandidates gw appId s)"
  let ?s2 = "snd (fetchGrids gw appId page sel s)"
  note m = getCandidates_miss [OF miss found]
  have c1: "getCandidates gw appId s = (Inr ?rs, ?s1)"
    using m(1) by (metis prod.collapse)
  have again: "getCandidates gw2 appId ?s1 = (Inr ?rs, ?s1)"
    by (rule getCandidates_hit [OF m(3)])
  have calls2: "searchCalls ?s2 = searchCalls s + 1"
    using fetchGrids_after_candidates(2) [OF c1] m(4) by simp
  have cache2: "steamGridSearchCache ?s2 appId = Some ?rs"
    using fetchGrids_after_candidates(1) [OF c1] m(3) by simp
  have c2: "getCandidates gw2 appId ?s2 = (Inr ?rs, ?s2)"
    by (rule getCandidates_hit [OF cache2])
  have calls3: "searchCalls (snd (fetchGrids gw2 appId page2 sel2 ?s2)) = searchCalls s + 1"
    using fetchGrids_after_candidates(2) [OF c2] calls2 by simp
  have cache3: "steamGridSearchCache (snd (fetchGrids gw2 appId page2 sel2 ?s2)) appId = Some ?rs"
    using fetchGrids_after_candidates(1) [OF c2] cache2 by simp
  show ?thesis
    using m(1,2,3) again calls2 cache2 calls3 cache3 by simp
qed

lemma toString_2: "toString 2 = ''2''"
  by code_simp

lemma searchCalls_startState: "searchCalls (startState type platform name) = 0"
  by (simp add: searchCalls_def startState_def)

theorem getCandidates_once_witness:
  "steamGridSearchCache (startState CAPSULE STEAM ''Foo'') 100 = None
 \<and> searchGame gwFoo (selectedGameName (startState CAPSULE STEAM ''Foo'')) = Inr [gameFoo]
 \<and> fst (getCandidates gwFoo 100 (startState CAPSULE STEAM ''Foo'')) =
     Inr [gameFoo\<lparr>numResultPages := Some 1\<rparr>]
 \<and> calls (snd (getCandidates gwFoo 100 (startState CAPSULE STEAM ''Foo''))) = [SearchGame ''Foo'']
 \<and> searchCalls (snd (fetchGrids gwFoo 100 0 None (startState CAPSULE STEAM ''Foo''))) = 1
 \<and> searchCalls (snd (fetchGrids gwFoo 100 0 None
      (snd (fetchGrids gwFoo 100 0 None (startState CAPSULE STEAM ''Foo''))))) = 1"
proof -
  have miss: "steamGridSearchCache (startState CAPSULE STEAM ''Foo'') 100 = None"
    by (simp add: startState_def)
  have found: "searchGame gwFoo (selectedGameName (startState CAPSULE STEAM ''Foo'')) = Inr [gameFoo]"
    by (simp add: startState_def gwFoo_def)
  have start: "calls (startState CAPSULE STEAM ''Foo'') = []"
    "selectedGameName (startState CAPSULE STEAM ''Foo'') = ''Foo''"
    by (simp_all add: startState_def)
  show ?thesis
    using getCandidates_once [OF miss found, of gwFoo 0 None 0 None] miss found
    by (simp add: start searchCalls_startState getNumPages_def)
qed


section \<open>Properties of the orchestrator\<close>

lemma getCandidates_frame':
  assumes "getCandidates gw a s = (r, s')"
  shows "steamGridSteamAppIdMap s' = steamGridSteamAppIdMap s"
    and "nonSteamGridsCache s' = nonSteamGridsCache s"
    and "steamGridsCache s' = steamGridsCache s"
    and "selectedSteamGridGameId s' = selectedSteamGridGameId s"
    and "gridType s' = gridType s"
    and "selectedGameName s' = selectedGameName s"
    and "currentPlatform s' = currentPlatform s"
  using getCandidates_frame [of gw a s] assms by simp_all

lemma find_filter: "find p xs = (case filter p xs of [] \<Rightarrow> None | x # ys \<Rightarrow> Some x)"
  by (induction xs) auto

lemma choosenResult_preferred:
  "results \<noteq> [] \<Longrightarrow> choosenResult p results = Some (preferred p results)"
  by (cases results) (auto simp: choosenResult_def preferred_def find_filter split: list.splits)

lemma preferred_in_set: "results \<noteq> [] \<Longrightarrow> preferred p results \<in> set results"
proof (cases "filter p results")
  case Nil
  assume "results \<noteq> []"
  with Nil show ?thesis by (simp add: preferred_def)
next
  case (Cons game others)
  have "set (filter p results) \<subseteq> set results" by auto
  moreover have "game \<in> set (filter p results)" unfolding Cons by simp
  ultimately have "game \<in> set results" by blast
  with Cons show ?thesis by (simp add: preferred_def)
qed

lemma predicate_choice:
  "results \<noteq> [] \<Longrightarrow>
   choosenResult (case platform of STEAM \<Rightarrow> steamPredicate sel gameId
                                 | NON_STEAM \<Rightarrow> nonSteamPredicate sel gameName) results =
   Some (resolvedCandidate platform sel gameId gameName results)"
  by (cases platform; cases sel)
     (auto simp: resolvedCandidate_def steamPredicate_def nonSteamPredicate_def choosenResult_preferred)

lemma fst_fetch_cong:
  "nonSteamGridsCache s' = nonSteamGridsCache s \<Longrightarrow>
   fst (fetchGridsForNonSteamGame gw a t p s') = fst (fetchGridsForNonSteamGame gw a t p s)"
  by (simp add: fst_fetch cachedPage_def)

lemma fetchChoosen_Some:
  "game_id c \<noteq> 0 \<Longrightarrow>
   selectedSteamGridGameId (snd (fetchChoosen gw (Some c) page s)) = toString (game_id c)
   \<and> fst (fetchChoosen gw (Some c) page s) = fst (fetchGridsForNonSteamGame gw (game_id c) (gridType s) page s)"
  by (simp add: fetchChoosen_def fetch_frame
        fst_fetch_cong [of "s\<lparr>selectedSteamGridGameId := toString (game_id c)\<rparr>" s])

lemma resolveProviderId_resolvedIdentity:
  "fst (resolveProviderId gw appId s) = resolvedIdentity gw s appId"
  by (simp add: resolveProviderId_def resolvedIdentity_def split: option.splits sum.splits)

lemma resolvedIdentity_cong:
  "steamGridSteamAppIdMap s' = steamGridSteamAppIdMap s \<Longrightarrow>
   resolvedIdentity gw s' appId = resolvedIdentity gw s appId"
  by (simp add: resolvedIdentity_def)

text \<open>
  C3, as the code has it. Take a call with a non-empty candidate list. For a non-native
  entry, and for a native entry whose identity resolves (the identity map holds it, or
  the client answers the direct lookup of lines 306-312), the candidate \<open>fetchGrids\<close>
  chooses is the one the resolution rule names: the candidate with the explicitly
  selected identity; without a selection the candidate with the resolved identity
  (native) or with the display name (non-native); in each case the first candidate when
  none matches. Unless its id is 0, its identity becomes the active selection and the
  result is its page. For a native entry whose direct lookup is rejected the call ends
  in the lookup's error, before any candidate is chosen: the active selection and the
  grid result cache stay as they were, whatever the candidates and the selection.
\<close>

theorem fetchGrids_resolves:
  assumes cands: "fst (getCandidates gw appId s) = Inr results"
    and nonempty: "results \<noteq> []"
  shows "(currentPlatform s = NON_STEAM \<or> resolvedIdentity gw s appId = Inr gameId \<longrightarrow>
            choosenResult (case currentPlatform s of
                             STEAM \<Rightarrow> steamPredicate sel gameId
                           | NON_STEAM \<Rightarrow> nonSteamPredicate sel (selectedGameName s)) results =
              Some (resolvedCandidate (currentPlatform s) sel gameId (selectedGameName s) results)
          \<and> resolvedCandidate (currentPlatform s) sel gameId (selectedGameName s) results \<in> set results
          \<and> (game_id (resolvedCandidate (currentPlatform s) sel gameId (selectedGameName s) results) \<noteq> 0 \<longrightarrow>
               selectedSteamGridGameId (snd (fetchGrids gw appId page sel s)) =
                 toString (game_id (resolvedCandidate (currentPlatform s) sel gameId (selectedGameName s) results))
             \<and> fst (fetchGrids gw appId page sel s) =
                 fst (fetchGridsForNonSteamGame gw
                        (game_id (resolvedCandidate (currentPlatform s) sel gameId (selectedGameName s) results))
                        (gridType s) page s)))
       \<and> (currentPlatform s = STEAM \<and> resolvedIdentity gw s appId = Inl e \<longrightarrow>
            fst (fetchGrids gw appId page sel s) = Inl e
          \<and> selectedSteamGridGameId (snd (fetchGrids gw appId page sel s)) = selectedSteamGridGameId s
          \<and> nonSteamGridsCache (snd (fetchGrids gw appId page sel s)) = nonSteamGridsCache s)"
proof -
  let ?c = "resolvedCandidate (currentPlatform s) sel gameId (selectedGameName s) results"
  obtain s1 where c1: "getCandidates gw appId s = (Inr results, s1)"
    using cands by (cases "getCandidates gw appId s") simp
  note f1 = getCandidates_frame' [OF c1]
  have lookup: "fst (resolveProviderId gw appId s1) = resolvedIdentity gw s appId"
    using resolvedIdentity_cong [OF f1(1)] by (simp add: resolveProviderId_resolvedIdentity)
  have choice: "choosenResult (case currentPlatform s of
                          STEAM \<Rightarrow> steamPredicate sel gameId
                        | NON_STEAM \<Rightarrow> nonSteamPredicate sel (selectedGameName s)) results = Some ?c"
    by (rule predicate_choice [OF nonempty])
  have member: "?c \<in> set results"
  proof -
    have "\<And>p. preferred p results \<in> set results" by (rule preferred_in_set [OF nonempty])
    then show ?thesis by (simp add: resolvedCandidate_def split: Platforms.splits)
  qed
  have effect: "selectedSteamGridGameId (snd (fetchGrids gw appId page sel s)) = toString (game_id ?c)
          \<and> fst (fetchGrids gw appId page sel s) =
              fst (fetchGridsForNonSteamGame gw (game_id ?c) (gridType s) page s)"
    if resolved: "currentPlatform s = NON_STEAM \<or> resolvedIdentity gw s appId = Inr gameId"
      and id: "game_id ?c \<noteq> 0"
  proof (cases "currentPlatform s")
    case STEAM
    with resolved lookup have "fst (resolveProviderId gw appId s1) = Inr gameId" by simp
    then obtain s2 where r: "resolveProviderId gw appId s1 = (Inr gameId, s2)"
      by (cases "resolveProviderId gw appId s1") simp
    note f2 = resolveProviderId_frame' [OF r]
    have run: "fetchGrids gw appId page sel s = fetchChoosen gw (Some ?c) page s2"
      using STEAM c1 r choice by (simp add: fetchGrids_def)
    have same: "nonSteamGridsCache s2 = nonSteamGridsCache s" "gridType s2 = gridType s"
      by (simp_all add: f1 f2)
    show ?thesis
      using fetchChoosen_Some [OF id, of gw page s2] same(2) fst_fetch_cong [OF same(1)]
      by (simp add: run)
  next
    case NON_STEAM
    have run: "fetchGrids gw appId page sel s = fetchChoosen gw (Some ?c) page s1"
      using NON_STEAM c1 choice by (simp add: fetchGrids_def f1)
    have same: "nonSteamGridsCache s1 = nonSteamGridsCache s" "gridType s1 = gridType s"
      by (simp_all add: f1)
    show ?thesis
      using fetchChoosen_Some [OF id, of gw page s1] same(2) fst_fetch_cong [OF same(1)]
      by (simp add: run)
  qed
  have rejected: "fst (fetchGrids gw appId page sel s) = Inl e
          \<and> selectedSteamGridGameId (snd (fetchGrids gw appId page sel s)) = selectedSteamGridGameId s
          \<and> nonSteamGridsCache (snd (fetchGrids gw appId page sel s)) = nonSteamGridsCache s"
    if native: "currentPlatform s = STEAM" and fails: "resolvedIdentity gw s appId = Inl e"
  proof -
    from fails lookup have "fst (resolveProviderId gw appId s1) = Inl e" by simp
    then obtain s2 where r: "resolveProviderId gw appId s1 = (Inl e, s2)"
      by (cases "resolveProviderId gw appId s1") simp
    note f2 = resolveProviderId_frame' [OF r]
    have run: "fetchGrids gw appId page sel s = (Inl e, s2)"
      using native c1 r by (simp add: fetchGrids_def)
    show ?thesis by (simp add: run f1 f2)
  qed
  from choice member effect rejected show ?thesis by blast
qed

text \<open>
  The claim as stated fails for a native entry: the search finds \<open>Baz\<close> and \<open>Bar\<close>, the
  explicit selection names \<open>Bar\<close>, the direct lookup is rejected, and the call ends in
  that error with nothing selected; without a selection there is no fallback to the
  first candidate either.
\<close>

theorem fetchGrids_resolves_counterexample:
  "currentPlatform (startState CAPSULE STEAM ''Bar'') = STEAM
 \<and> fst (getCandidates gwBar 100 (startState CAPSULE STEAM ''Bar'')) =
     Inr [candBaz\<lparr>numResultPages := Some 1\<rparr>, candBar\<lparr>numResultPages := Some 1\<rparr>]
 \<and> fst (fetchGrids gwBar 100 0 (Some ''2'') (startState CAPSULE STEAM ''Bar'')) =
     Inl (ClientError ''Game not found'')
 \<and> selectedSteamGridGameId (snd (fetchGrids gwBar 100 0 (Some ''2'') (startState CAPSULE STEAM ''Bar''))) =
     ''None''
 \<and> fst (fetchGrids gwBar 100 0 None (startState CAPSULE STEAM ''Bar'')) =
     Inl (ClientError ''Game not found'')"
  by (simp add: fetchGrids_def getCandidates_def resolveProviderId_def startState_def gwBar_def
        getNumPages_def)

text \<open>
  The theorem at the spec's scenario (\<open>Bar\<close> among \<open>Baz\<close>, \<open>Bar\<close> resolves to id 2), at the
  native scenario (\<open>Foo\<close>, id 5) and at a native entry whose lookup is rejected.
\<close>

lemma candidates_Bar:
  "fst (getCandidates gwBar 4242 (startState CAPSULE NON_STEAM ''Bar'')) =
     Inr [candBaz\<lparr>numResultPages := Some 1\<rparr>, candBar\<lparr>numResultPages := Some 1\<rparr>]"
  by (simp add: getCandidates_def startState_def gwBar_def getNumPages_def)

lemma candidates_Bar_native:
  "fst (getCandidates gwBar 100 (startState CAPSULE STEAM ''Bar'')) =
     Inr [candBaz\<lparr>numResultPages := Some 1\<rparr>, candBar\<lparr>numResultPages := Some 1\<rparr>]"
  by (simp add: getCandidates_def startState_def gwBar_def getNumPages_def)

lemma candidates_Foo:
  "fst (getCandidates gwFoo 100 (startState CAPSULE STEAM ''Foo'')) =
     Inr [gameFoo\<lparr>numResultPages := Some 1\<rparr>]"
  by (simp add: getCandidates_def startState_def gwFoo_def getNumPages_def)

lemma identity_Foo:
  "resolvedIdentity gwFoo (startState CAPSULE STEAM ''Foo'') 100 = Inr ''5''"
  by (simp add: resolvedIdentity_def startState_def gwFoo_def gameFoo_def toString_5)

lemma identity_Bar_native:
  "resolvedIdentity gwBar (startState CAPSULE STEAM ''Bar'') 100 = Inl (ClientError ''Game not found'')"
  by (simp add: resolvedIdentity_def startState_def gwBar_def)

theorem fetchGrids_resolves_witness:
  "fst (getCandidates gwBar 4242 (startState CAPSULE NON_STEAM ''Bar'')) =
     Inr [candBaz\<lparr>numResultPages := Some 1\<rparr>, candBar\<lparr>numResultPages := Some 1\<rparr>]
 \<and> selectedSteamGridGameId (snd (fetchGrids gwBar 4242 0 None (startState CAPSULE NON_STEAM ''Bar''))) = ''2''
 \<and> fst (fetchGrids gwBar 4242 0 None (startState CAPSULE NON_STEAM ''Bar'')) = Inr [img1]
 \<and> fst (getCandidates gwFoo 100 (startState CAPSULE STEAM ''Foo'')) =
     Inr [gameFoo\<lparr>numResultPages := Some 1\<rparr>]
 \<and> resolvedIdentity gwFoo (startState CAPSULE STEAM ''Foo'') 100 = Inr ''5''
 \<and> selectedSteamGridGameId (snd (fetchGrids gwFoo 100 0 None (startState CAPSULE STEAM ''Foo''))) = ''5''
 \<and> fst (fetchGrids gwFoo 100 0 None (startState CAPSULE STEAM ''Foo'')) = Inr [img1]
 \<and> fst (getCandidates gwBar 100 (startState CAPSULE STEAM ''Bar'')) =
     Inr [candBaz\<lparr>numResultPages := Some 1\<rparr>, candBar\<lparr>numResultPages := Some 1\<rparr>]
 \<and> resolvedIdentity gwBar (startState CAPSULE STEAM ''Bar'') 100 = Inl (ClientError ''Game not found'')
 \<and> fst (fetchGrids gwBar 100 0 None (startState CAPSULE STEAM ''Bar'')) =
     Inl (ClientError ''Game not found'')
 \<and> selectedSteamGridGameId (snd (fetchGrids gwBar 100 0 None (startState CAPSULE STEAM ''Bar''))) = ''None''"
proof -
  let ?sBar = "startState CAPSULE NON_STEAM ''Bar''"
  let ?sFoo = "startState CAPSULE STEAM ''Foo''"
  let ?sNat = "startState CAPSULE STEAM ''Bar''"
  have platform: "currentPlatform ?sBar = NON_STEAM" "currentPlatform ?sFoo = STEAM"
    "currentPlatform ?sNat = STEAM"
    "selectedGameName ?sBar = ''Bar''" "selectedGameName ?sFoo = ''Foo''"
    "gridType ?sBar = CAPSULE" "gridType ?sFoo = CAPSULE"
    "selectedSteamGridGameId ?sNat = ''None''"
    by (simp_all add: startState_def)
  have bar: "resolvedCandidate NON_STEAM None ''unused'' ''Bar''
      [candBaz\<lparr>numResultPages := Some 1\<rparr>, candBar\<lparr>numResultPages := Some 1\<rparr>] =
      candBar\<lparr>numResultPages := Some 1\<rparr>"
    by (simp add: resolvedCandidate_def preferred_def candBaz_def candBar_def)
  have foo: "resolvedCandidate STEAM None ''5'' ''Foo'' [gameFoo\<lparr>numResultPages := Some 1\<rparr>] =
      gameFoo\<lparr>numResultPages := Some 1\<rparr>"
    by (simp add: resolvedCandidate_def preferred_def gameFoo_def toString_5)
  have ids: "game_id (candBar\<lparr>numResultPages := Some 1\<rparr>) = 2"
    "game_id (gameFoo\<lparr>numResultPages := Some 1\<rparr>) = 5"
    by (simp_all add: candBar_def gameFoo_def)
  have pages: "fst (fetchGridsForNonSteamGame gwBar 2 CAPSULE 0 ?sBar) = Inr [img1]"
    "fst (fetchGridsForNonSteamGame gwFoo 5 CAPSULE 0 ?sFoo) = Inr [img1]"
    by (simp_all add: fst_fetch cachedPage_startState gwBar_def gwFoo_def)
  have ne: "[candBaz\<lparr>numResultPages := Some 1\<rparr>, candBar\<lparr>numResultPages := Some 1\<rparr>] \<noteq> []"
    "[gameFoo\<lparr>numResultPages := Some 1\<rparr>] \<noteq> []"
    by simp_all
  note Bar = fetchGrids_resolves [OF candidates_Bar ne(1),
      where gameId = "''unused''" and sel = None and page = 0,
      THEN conjunct1, unfolded platform bar ids pages toString_2]
  note Foo = fetchGrids_resolves [OF candidates_Foo ne(2),
      where gameId = "''5''" and sel = None and page = 0,
      THEN conjunct1, unfolded platform foo ids pages toString_5 identity_Foo]
  note Nat = fetchGrids_resolves [OF candidates_Bar_native ne(1),
      where e = "ClientError ''Game not found''" and sel = None and page = 0,
      THEN conjunct2, unfolded platform identity_Bar_native]
  from Bar have "selectedSteamGridGameId (snd (fetchGrids gwBar 4242 0 None ?sBar)) = ''2''
      \<and> fst (fetchGrids gwBar 4242 0 None ?sBar) = Inr [img1]"
    by simp
  moreover from Foo have "selectedSteamGridGameId (snd (fetchGrids gwFoo 100 0 None ?sFoo)) = ''5''
      \<and> fst (fetchGrids gwFoo 100 0 None ?sFoo) = Inr [img1]"
    by simp
  moreover from Nat have "fst (fetchGrids gwBar 100 0 None ?sNat) = Inl (ClientError ''Game not found'')
      \<and> selectedSteamGridGameId (snd (fetchGrids gwBar 100 0 None ?sNat)) = ''None''"
    by simp
  ultimately show ?thesis
    using candidates_Bar candidates_Foo identity_Foo candidates_Bar_native identity_Bar_native by simp
qed

subsection \<open>No candidates\<close>

lemma choosenResult_Nil [simp]: "choosenResult p [] = None"
  by (simp add: choosenResult_def)

lemma fetchChoosen_None [simp]: "fetchChoosen gw None page s = (Inr [], s)"
  by (simp add: fetchChoosen_def)

lemma resolveProviderId_result:
  "fst (resolveProviderId gw appId s) =
     (case steamGridSteamAppIdMap s appId of
        Some gameId \<Rightarrow> Inr gameId
      | None \<Rightarrow> (case getGameBySteamAppId gw appId of
                   Inl e \<Rightarrow> Inl e
                 | Inr gameInfo \<Rightarrow> Inr (toString (game_id gameInfo))))"
  by (simp add: resolveProviderId_def split: option.splits sum.splits)

text \<open>
  C4, as the code has it. When the candidate list is empty, \<open>fetchGrids\<close> leaves the
  active selection and the grid result cache as they were. For a non-native entry the
  result is the empty list. For a native entry the direct identity lookup of lines
  306-312 still runs before the candidates are looked at: the result is the empty list
  when the identity is already in the map or the lookup answers, and the lookup's error
  when it is rejected.
\<close>

theorem fetchGrids_no_candidates:
  assumes empty: "fst (getCandidates gw appId s) = Inr []"
  shows "selectedSteamGridGameId (snd (fetchGrids gw appId page sel s)) = selectedSteamGridGameId s
       \<and> nonSteamGridsCache (snd (fetchGrids gw appId page sel s)) = nonSteamGridsCache s
       \<and> (currentPlatform s = NON_STEAM \<longrightarrow> fst (fetchGrids gw appId page sel s) = Inr [])
       \<and> (currentPlatform s = STEAM \<longrightarrow>
            fst (fetchGrids gw appId page sel s) =
              (case steamGridSteamAppIdMap s appId of
                 Some gameId \<Rightarrow> Inr []
               | None \<Rightarrow> (case getGameBySteamAppId gw appId of
                            Inl e \<Rightarrow> Inl e
                          | Inr gameInfo \<Rightarrow> Inr [])))"
proof -
  obtain s1 where c1: "getCandidates gw appId s = (Inr [], s1)"
    using empty by (cases "getCandidates gw appId s") simp
  note f1 = getCandidates_frame' [OF c1]
  show ?thesis
  proof (cases "currentPlatform s")
    case NON_STEAM
    then have "fetchGrids gw appId page sel s = (Inr [], s1)"
      using c1 by (simp add: fetchGrids_def)
    with NON_STEAM show ?thesis by (simp add: f1)
  next
    case STEAM
    obtain r s2 where r: "resolveProviderId gw appId s1 = (r, s2)"
      by (cases "resolveProviderId gw appId s1")
    note f2 = resolveProviderId_frame' [OF r]
    have res: "r = (case steamGridSteamAppIdMap s appId of
                 Some gameId \<Rightarrow> Inr gameId
               | None \<Rightarrow> (case getGameBySteamAppId gw appId of
                            Inl e \<Rightarrow> Inl e
                          | Inr gameInfo \<Rightarrow> Inr (toString (game_id gameInfo))))"
      using resolveProviderId_result [of gw appId s1] r by (simp add: f1)
    have run: "fetchGrids gw appId page sel s = (case r of Inl e \<Rightarrow> (Inl e, s2) | Inr gameId \<Rightarrow> (Inr [], s2))"
      using STEAM c1 r by (simp add: fetchGrids_def split: sum.splits)
    show ?thesis
      using STEAM by (auto simp: run res f1 f2 split: sum.splits option.splits)
  qed
qed

text \<open>
  The claim as stated fails for a native entry: the search finds nothing, the direct
  lookup is rejected, and the call ends in that error instead of the empty list.
\<close>

theorem fetchGrids_no_candidates_counterexample:
  "fst (getCandidates gwFoo 999 (startState CAPSULE STEAM ''Qux'')) = Inr []
 \<and> fst (fetchGrids gwFoo 999 0 None (startState CAPSULE STEAM ''Qux'')) =
     Inl (ClientError ''Game not found'')"
  by (simp add: fetchGrids_def getCandidates_def resolveProviderId_def startState_def gwFoo_def
        getNumPages_def)

theorem fetchGrids_no_candidates_witness:
  "fst (getCandidates gwFoo 999 (startState CAPSULE NON_STEAM ''Qux'')) = Inr []
 \<and> fst (fetchGrids gwFoo 999 0 None (startState CAPSULE NON_STEAM ''Qux'')) = Inr []
 \<and> selectedSteamGridGameId (snd (fetchGrids gwFoo 999 0 None (startState CAPSULE NON_STEAM ''Qux''))) = ''None''
 \<and> fst (getCandidates gwFoo 100 (startState CAPSULE STEAM ''Qux'')) = Inr []
 \<and> fst (fetchGrids gwFoo 100 0 None (startState CAPSULE STEAM ''Qux'')) = Inr []
 \<and> selectedSteamGridGameId (snd (fetchGrids gwFoo 100 0 None (startState CAPSULE STEAM ''Qux''))) = ''None''"
proof -
  have e1: "fst (getCandidates gwFoo 999 (startState CAPSULE NON_STEAM ''Qux'')) = Inr []"
    by (simp add: getCandidates_def startState_def gwFoo_def getNumPages_def)
  have e2: "fst (getCandidates gwFoo 100 (startState CAPSULE STEAM ''Qux'')) = Inr []"
    by (simp add: getCandidates_def startState_def gwFoo_def getNumPages_def)
  have start: "currentPlatform (startState CAPSULE NON_STEAM ''Qux'') = NON_STEAM"
    "currentPlatform (startState CAPSULE STEAM ''Qux'') = STEAM"
    "selectedSteamGridGameId (startState CAPSULE NON_STEAM ''Qux'') = ''None''"
    "selectedSteamGridGameId (startState CAPSULE STEAM ''Qux'') = ''None''"
    "steamGridSteamAppIdMap (startState CAPSULE STEAM ''Qux'') 100 = None"
    "getGameBySteamAppId gwFoo 100 = Inr gameFoo"
    by (simp_all add: startState_def gwFoo_def)
  show ?thesis
    using fetchGrids_no_candidates [OF e1, of 0 None] fetchGrids_no_candidates [OF e2, of 0 None] e1 e2
    by (simp add: start)
qed

subsection \<open>The direct identity lookup\<close>

lemma lookupCalls_upd [simp]:
  "lookupCalls (s\<lparr>selectedSteamGridGameId := x\<rparr>) = lookupCalls s"
  by (simp add: lookupCalls_def fun_eq_iff)

lemma lookupCalls_frame:
  "lookupCalls (snd (getCandidates gw a s)) appId = lookupCalls s appId"
  "lookupCalls (snd (fetchGridsForNonSteamGame gw g t p s)) appId = lookupCalls s appId"
  by (auto simp: lookupCalls_def getCandidates_def fetchGridsForNonSteamGame_def clientById_def
           split: option.splits sum.splits)

lemma lookupCalls_fetchChoosen:
  "lookupCalls (snd (fetchChoosen gw c p s)) appId = lookupCalls s appId"
  by (auto simp: fetchChoosen_def lookupCalls_frame split: option.splits)

lemma fetchChoosen_idmap:
  "steamGridSteamAppIdMap (snd (fetchChoosen gw c p s)) = steamGridSteamAppIdMap s"
  by (rule fetchChoosen_frame)

text \<open>The lookup step on a miss that the client answers.\<close>

lemma resolveProviderId_miss:
  assumes "steamGridSteamAppIdMap s appId = None"
    and "getGameBySteamAppId gw appId = Inr gameInfo"
  shows "resolveProviderId gw appId s =
           (Inr (toString (game_id gameInfo)),
            s\<lparr>calls := calls s @ [GetGameBySteamAppId appId],
              steamGridSteamAppIdMap := (steamGridSteamAppIdMap s)(appId \<mapsto> toString (game_id gameInfo))\<rparr>)"
  using assms by (simp add: resolveProviderId_def)

text \<open>Neither the page fetch nor the last step of \<open>fetchGrids\<close> reads the identity map or the log.\<close>

lemma fetchChoosen_idmap_upd:
  "fetchChoosen gw c p (s\<lparr>steamGridSteamAppIdMap := m\<rparr>) =
     (fst (fetchChoosen gw c p s), (snd (fetchChoosen gw c p s))\<lparr>steamGridSteamAppIdMap := m\<rparr>)"
  by (auto simp: fetchChoosen_def fetchGridsForNonSteamGame_def clientById_def
           split: option.splits sum.splits)

lemma gateway_lookup_irrelevant:
  "getCandidates (gw\<lparr>getGameBySteamAppId := f\<rparr>) = getCandidates gw"
  "fetchGridsForNonSteamGame (gw\<lparr>getGameBySteamAppId := f\<rparr>) = fetchGridsForNonSteamGame gw"
  "fetchChoosen (gw\<lparr>getGameBySteamAppId := f\<rparr>) = fetchChoosen gw"
  by (auto simp: fun_eq_iff getCandidates_def fetchGridsForNonSteamGame_def clientById_def
        fetchChoosen_def split: option.splits sum.splits)

lemma steamPredicate_explicit:
  "sel \<noteq> None \<Longrightarrow> sel \<noteq> Some [] \<Longrightarrow> steamPredicate sel gameId = steamPredicate sel gameId'"
  by (cases sel) (simp_all add: steamPredicate_def)

text \<open>
  C10. On the first call for a native entry (no identity in the map yet), once the
  candidates are there and the client answers the direct lookup, \<open>fetchGrids\<close> sends
  exactly one lookup for the app and stores the answer's id in the identity map, with or
  without an explicit selection. With an explicit selection the answer has no influence:
  had the lookup answered with any other game, result, active selection and grid result
  cache would be the same.
\<close>

theorem fetchGrids_identity_lookup:
  assumes native: "currentPlatform s = STEAM"
    and unknown: "steamGridSteamAppIdMap s appId = None"
    and cands: "fst (getCandidates gw appId s) = Inr results"
    and answer: "getGameBySteamAppId gw appId = Inr gameInfo"
  shows "lookupCalls (snd (fetchGrids gw appId page sel s)) appId = lookupCalls s appId + 1
       \<and> steamGridSteamAppIdMap (snd (fetchGrids gw appId page sel s)) appId =
           Some (toString (game_id gameInfo))
       \<and> (sel \<noteq> None \<and> sel \<noteq> Some [] \<and> f appId = Inr other \<longrightarrow>
            fst (fetchGrids (gw\<lparr>getGameBySteamAppId := f\<rparr>) appId page sel s) =
              fst (fetchGrids gw appId page sel s)
          \<and> selectedSteamGridGameId (snd (fetchGrids (gw\<lparr>getGameBySteamAppId := f\<rparr>) appId page sel s)) =
              selectedSteamGridGameId (snd (fetchGrids gw appId page sel s))
          \<and> nonSteamGridsCache (snd (fetchGrids (gw\<lparr>getGameBySteamAppId := f\<rparr>) appId page sel s)) =
              nonSteamGridsCache (snd (fetchGrids gw appId page sel s)))"
proof -
  obtain s1 where c1: "getCandidates gw appId s = (Inr results, s1)"
    using cands by (cases "getCandidates gw appId s") simp
  note f1 = getCandidates_frame' [OF c1]
  have l1: "lookupCalls s1 appId = lookupCalls s appId"
    using lookupCalls_frame(1) [of gw appId s appId] c1 by simp
  have unknown1: "steamGridSteamAppIdMap s1 appId = None"
    using unknown by (simp add: f1)
  let ?log = "s1\<lparr>calls := calls s1 @ [GetGameBySteamAppId appId]\<rparr>"
  have run: "fetchGrids gw' appId page sel s =
      (fst (fetchChoosen gw (choosenResult (steamPredicate sel (toString (game_id g))) results) page ?log),
       (snd (fetchChoosen gw (choosenResult (steamPredicate sel (toString (game_id g))) results) page ?log))
         \<lparr>steamGridSteamAppIdMap := (steamGridSteamAppIdMap s1)(appId \<mapsto> toString (game_id g))\<rparr>)"
    if "gw' = gw\<lparr>getGameBySteamAppId := h\<rparr>" "h appId = Inr g" for gw' h g
  proof -
    have "getGameBySteamAppId gw' appId = Inr g" using that by simp
    from resolveProviderId_miss [OF unknown1 this]
    show ?thesis
      using native c1 that(1)
      by (simp add: fetchGrids_def gateway_lookup_irrelevant fetchChoosen_idmap_upd)
  qed
  have own: "gw = gw\<lparr>getGameBySteamAppId := getGameBySteamAppId gw\<rparr>" by simp
  note run1 = run [where h = "getGameBySteamAppId gw" and g = gameInfo, OF own answer]
  have calls: "lookupCalls (snd (fetchGrids gw appId page sel s)) appId = lookupCalls s appId + 1"
  proof -
    have "lookupCalls (snd (fetchGrids gw appId page sel s)) appId =
          lookupCalls (snd (fetchChoosen gw (choosenResult (steamPredicate sel (toString (game_id gameInfo))) results) page ?log)) appId"
      by (simp add: run1 lookupCalls_def)
    also have "\<dots> = lookupCalls ?log appId" by (rule lookupCalls_fetchChoosen)
    also have "\<dots> = lookupCalls s appId + 1" using l1 by (simp add: lookupCalls_def)
    finally show ?thesis .
  qed
  have stored: "steamGridSteamAppIdMap (snd (fetchGrids gw appId page sel s)) appId =
           Some (toString (game_id gameInfo))"
    by (simp add: run1)
  have indep: "fst (fetchGrids (gw\<lparr>getGameBySteamAppId := f\<rparr>) appId page sel s) =
              fst (fetchGrids gw appId page sel s)
          \<and> selectedSteamGridGameId (snd (fetchGrids (gw\<lparr>getGameBySteamAppId := f\<rparr>) appId page sel s)) =
              selectedSteamGridGameId (snd (fetchGrids gw appId page sel s))
          \<and> nonSteamGridsCache (snd (fetchGrids (gw\<lparr>getGameBySteamAppId := f\<rparr>) appId page sel s)) =
              nonSteamGridsCache (snd (fetchGrids gw appId page sel s))"
    if explicit: "sel \<noteq> None" "sel \<noteq> Some []" and f: "f appId = Inr other"
  proof -
    note run2 = run [where h = f and g = other, OF refl f]
    have "steamPredicate sel (toString (game_id other)) = steamPredicate sel (toString (game_id gameInfo))"
      by (rule steamPredicate_explicit [OF explicit])
    then show ?thesis by (simp add: run1 run2)
  qed
  from calls stored indep show ?thesis by blast
qed

lemma toString_7: "toString 7 = ''7''"
  by code_simp

lemmas run_defs = fetchGrids_def getCandidates_def resolveProviderId_def fetchChoosen_def
  choosenResult_def steamPredicate_def nonSteamPredicate_def getNumPages_def
  fetchGridsForNonSteamGame_def clientById_def startState_def

lemma selects_7:
  "selectedSteamGridGameId (snd (fetchGrids gwPages 100 0 (Some ''7'') (startState CAPSULE STEAM ''Foo''))) = ''7''"
  by (simp add: run_defs gwPages_def gameFoo_def gameBar_def toString_5 toString_7)

theorem fetchGrids_identity_lookup_witness:
  "currentPlatform (startState CAPSULE STEAM ''Foo'') = STEAM
 \<and> steamGridSteamAppIdMap (startState CAPSULE STEAM ''Foo'') 100 = None
 \<and> fst (getCandidates gwPages 100 (startState CAPSULE STEAM ''Foo'')) =
     Inr [gameFoo\<lparr>numResultPages := Some 1\<rparr>, gameBar\<lparr>numResultPages := Some 1\<rparr>]
 \<and> getGameBySteamAppId gwPages 100 = Inr gameFoo
 \<and> lookupBar 100 = Inr gameBar
 \<and> lookupCalls (snd (fetchGrids gwPages 100 0 (Some ''7'') (startState CAPSULE STEAM ''Foo''))) 100 = 1
 \<and> steamGridSteamAppIdMap (snd (fetchGrids gwPages 100 0 (Some ''7'') (startState CAPSULE STEAM ''Foo''))) 100 =
     Some ''5''
 \<and> selectedSteamGridGameId (snd (fetchGrids gwPages 100 0 (Some ''7'') (startState CAPSULE STEAM ''Foo''))) = ''7''
 \<and> selectedSteamGridGameId (snd (fetchGrids (gwPages\<lparr>getGameBySteamAppId := lookupBar\<rparr>) 100 0 (Some ''7'')
      (startState CAPSULE STEAM ''Foo''))) = ''7''
 \<and> fst (fetchGrids (gwPages\<lparr>getGameBySteamAppId := lookupBar\<rparr>) 100 0 (Some ''7'')
      (startState CAPSULE STEAM ''Foo'')) =
     fst (fetchGrids gwPages 100 0 (Some ''7'') (startState CAPSULE STEAM ''Foo''))"
proof -
  let ?s = "startState CAPSULE STEAM ''Foo''"
  have native: "currentPlatform ?s = STEAM" by (simp add: startState_def)
  have unknown: "steamGridSteamAppIdMap ?s 100 = None" by (simp add: startState_def)
  have cands: "fst (getCandidates gwPages 100 ?s) =
      Inr [gameFoo\<lparr>numResultPages := Some 1\<rparr>, gameBar\<lparr>numResultPages := Some 1\<rparr>]"
    by (simp add: getCandidates_def startState_def gwPages_def getNumPages_def)
  have answer: "getGameBySteamAppId gwPages 100 = Inr gameFoo" by (simp add: gwPages_def)
  have other: "lookupBar 100 = Inr gameBar" by (simp add: lookupBar_def)
  have start: "lookupCalls ?s 100 = 0" by (simp add: lookupCalls_def startState_def)
  have five: "toString (game_id gameFoo) = ''5''" by (simp add: gameFoo_def toString_5)
  have explicit: "Some ''7'' \<noteq> None" "Some ''7'' \<noteq> Some []" by simp_all
  show ?thesis
    using fetchGrids_identity_lookup [OF native unknown cands answer,
        where sel = "Some ''7''" and f = lookupBar and other = gameBar and page = 0]
      native unknown cands answer other selects_7
    by (simp add: start five)
qed

subsection \<open>A selection that matches no candidate\<close>

text \<open>
  Any non-empty string counts as an explicit selection. The grids view starts with the
  selection \<^verbatim>\<open>"None"\<close>; passed to \<open>fetchGrids\<close> it matches no candidate, and the first
  candidate is taken, not the one with the matching name.
\<close>

lemma toString_1: "toString 1 = ''1''"
  by code_simp

lemma fetchGrids_selection_None:
  "selectedSteamGridGameId
     (snd (fetchGrids gwBar 4242 0 (Some ''None'') (startState CAPSULE NON_STEAM ''Bar''))) = ''1''"
  by (simp add: run_defs gwBar_def candBaz_def candBar_def toString_1 toString_2)

subsection \<open>Which cache instance a fetch uses\<close>

lemma fetchGrids_steamGridsCache:
  "steamGridsCache (snd (fetchGrids gw appId page sel s)) = steamGridsCache s"
proof -
  obtain r1 s1 where c1: "getCandidates gw appId s = (r1, s1)"
    by (cases "getCandidates gw appId s")
  obtain r2 s2 where c2: "resolveProviderId gw appId s1 = (r2, s2)"
    by (cases "resolveProviderId gw appId s1")
  note f1 = getCandidates_frame' [OF c1]
  note f2 = resolveProviderId_frame' [OF c2]
  show ?thesis
    using c1 c2
    by (simp add: fetchGrids_def fetchChoosen_frame f1 f2 split: Platforms.splits sum.splits)
qed

lemma fetchGridsForSteamGame_frame:
  "nonSteamGridsCache (snd (fetchGridsForSteamGame gw appId type s)) = nonSteamGridsCache s"
  by (auto simp: fetchGridsForSteamGame_def clientBySteamAppId_def split: option.splits sum.splits)

lemma fetchGridsForSteamGame_stores:
  "fst (fetchGridsForSteamGame gw appId type s) = Inr grids \<Longrightarrow>
   \<exists>types. steamGridsCache (snd (fetchGridsForSteamGame gw appId type s)) (toString appId) = Some types
          \<and> types type = Some grids"
  by (auto simp: fetchGridsForSteamGame_def clientBySteamAppId_def split: option.splits sum.splits)

lemma fetch_stores:
  "fst (fetchGridsForNonSteamGame gw a t p s) = Inr grids \<Longrightarrow>
   cachedPage (snd (fetchGridsForNonSteamGame gw a t p s)) a t p = Some grids"
proof (cases "cachedPage s a t p")
  case (Some cached)
  assume "fst (fetchGridsForNonSteamGame gw a t p s) = Inr grids"
  with Some show ?thesis by (simp add: cachedPage_hit)
next
  case None
  assume r: "fst (fetchGridsForNonSteamGame gw a t p s) = Inr grids"
  with None have "imagesById gw (methodName t ''sById'') a p = Inr grids"
    by (simp add: fst_fetch)
  from fetch_miss_Inr(3) [OF None this, of a t p] show ?thesis by simp
qed

lemma cachedPage_selected [simp]:
  "cachedPage (s\<lparr>selectedSteamGridGameId := x\<rparr>) = cachedPage s"
  by (simp add: cachedPage_def fun_eq_iff)

lemma fetchChoosen_stores:
  assumes "fst (fetchChoosen gw c page s) = Inr grids" and "grids \<noteq> []"
  shows "\<exists>gid. selectedSteamGridGameId (snd (fetchChoosen gw c page s)) = toString gid
             \<and> cachedPage (snd (fetchChoosen gw c page s)) gid (gridType s) page = Some grids"
proof (cases c)
  case None
  with assms show ?thesis by simp
next
  case (Some game)
  with assms have id: "game_id game \<noteq> 0"
    by (auto simp: fetchChoosen_def split: if_splits)
  let ?s = "s\<lparr>selectedSteamGridGameId := toString (game_id game)\<rparr>"
  have run: "fetchChoosen gw c page s = fetchGridsForNonSteamGame gw (game_id game) (gridType s) page ?s"
    using Some id by (simp add: fetchChoosen_def)
  from assms(1) have "cachedPage (snd (fetchChoosen gw c page s)) (game_id game) (gridType s) page = Some grids"
    unfolding run by (rule fetch_stores)
  moreover have "selectedSteamGridGameId (snd (fetchChoosen gw c page s)) = toString (game_id game)"
    unfolding run by (simp add: fetch_frame)
  ultimately show ?thesis by blast
qed

lemma fetchGrids_stores:
  assumes "fst (fetchGrids gw appId page sel s) = Inr grids" and "grids \<noteq> []"
  shows "\<exists>gid. selectedSteamGridGameId (snd (fetchGrids gw appId page sel s)) = toString gid
             \<and> cachedPage (snd (fetchGrids gw appId page sel s)) gid (gridType s) page = Some grids"
proof -
  obtain r1 s1 where c1: "getCandidates gw appId s = (r1, s1)"
    by (cases "getCandidates gw appId s")
  obtain r2 s2 where c2: "resolveProviderId gw appId s1 = (r2, s2)"
    by (cases "resolveProviderId gw appId s1")
  note f1 = getCandidates_frame' [OF c1]
  note f2 = resolveProviderId_frame' [OF c2]
  show ?thesis
  proof (cases "currentPlatform s")
    case STEAM
    with assms c1 obtain results where r1: "r1 = Inr results"
      by (cases r1) (auto simp: fetchGrids_def)
    with assms c1 c2 STEAM obtain gameId where r2: "r2 = Inr gameId"
      by (cases r2) (auto simp: fetchGrids_def)
    have run: "fetchGrids gw appId page sel s =
        fetchChoosen gw (choosenResult (steamPredicate sel gameId) results) page s2"
      using STEAM c1 c2 r1 r2 by (simp add: fetchGrids_def)
    from fetchChoosen_stores [OF assms [unfolded run]] show ?thesis
      unfolding run by (simp add: f1 f2)
  next
    case NON_STEAM
    with assms c1 obtain results where r1: "r1 = Inr results"
      by (cases r1) (auto simp: fetchGrids_def)
    have run: "fetchGrids gw appId page sel s =
        fetchChoosen gw (choosenResult (nonSteamPredicate sel (selectedGameName s1)) results) page s1"
      using NON_STEAM c1 r1 by (simp add: fetchGrids_def)
    from fetchChoosen_stores [OF assms [unfolded run]] show ?thesis
      unfolding run by (simp add: f1)
  qed
qed

text \<open>No step of \<open>fetchGrids\<close> reads the native-platform cache.\<close>

lemma getCandidates_steamGridsCache_upd:
  "getCandidates gw a (s\<lparr>steamGridsCache := m\<rparr>) =
     (fst (getCandidates gw a s), (snd (getCandidates gw a s))\<lparr>steamGridsCache := m\<rparr>)"
  by (auto simp: getCandidates_def split: option.splits sum.splits)

lemma resolveProviderId_steamGridsCache_upd:
  "resolveProviderId gw a (s\<lparr>steamGridsCache := m\<rparr>) =
     (fst (resolveProviderId gw a s), (snd (resolveProviderId gw a s))\<lparr>steamGridsCache := m\<rparr>)"
  by (auto simp: resolveProviderId_def split: option.splits sum.splits)

lemma fetchChoosen_steamGridsCache_upd:
  "fetchChoosen gw c p (s\<lparr>steamGridsCache := m\<rparr>) =
     (fst (fetchChoosen gw c p s), (snd (fetchChoosen gw c p s))\<lparr>steamGridsCache := m\<rparr>)"
  by (auto simp: fetchChoosen_def fetchGridsForNonSteamGame_def clientById_def
           split: option.splits sum.splits)

lemma fetchGrids_steamGridsCache_upd:
  "fetchGrids gw appId page sel (s\<lparr>steamGridsCache := m\<rparr>) =
     (fst (fetchGrids gw appId page sel s), (snd (fetchGrids gw appId page sel s))\<lparr>steamGridsCache := m\<rparr>)"
proof -
  obtain r1 s1 where c1: "getCandidates gw appId s = (r1, s1)"
    by (cases "getCandidates gw appId s")
  obtain r2 s2 where c2: "resolveProviderId gw appId s1 = (r2, s2)"
    by (cases "resolveProviderId gw appId s1")
  note f1 = getCandidates_frame' [OF c1]
  show ?thesis
    using c1 c2
    by (simp add: fetchGrids_def getCandidates_steamGridsCache_upd
          resolveProviderId_steamGridsCache_upd fetchChoosen_steamGridsCache_upd f1
          split: Platforms.splits sum.splits)
qed

text \<open>
  C9, as the code has it. \<open>fetchGrids\<close> uses one instance for both platforms, the
  three-level \<open>nonSteamGridsCache\<close> keyed by provider game id: it never writes
  \<open>steamGridsCache\<close>, never reads it (replacing its content changes nothing else), and a
  non-empty result is stored in \<open>nonSteamGridsCache\<close> under the active selection. The
  two-level \<open>steamGridsCache\<close> is read and written by \<open>fetchGridsForSteamGame\<close> alone,
  which leaves \<open>nonSteamGridsCache\<close> unchanged; \<open>fetchGrids\<close> does not call it.
\<close>

theorem fetchGrids_single_instance:
  "steamGridsCache (snd (fetchGrids gw appId page sel s)) = steamGridsCache s
 \<and> fetchGrids gw appId page sel (s\<lparr>steamGridsCache := m\<rparr>) =
     (fst (fetchGrids gw appId page sel s), (snd (fetchGrids gw appId page sel s))\<lparr>steamGridsCache := m\<rparr>)
 \<and> (fst (fetchGrids gw appId page sel s) = Inr grids \<and> grids \<noteq> [] \<longrightarrow>
      (\<exists>gid. selectedSteamGridGameId (snd (fetchGrids gw appId page sel s)) = toString gid
            \<and> cachedPage (snd (fetchGrids gw appId page sel s)) gid (gridType s) page = Some grids))
 \<and> nonSteamGridsCache (snd (fetchGridsForSteamGame gw appId type s)) = nonSteamGridsCache s
 \<and> (fst (fetchGridsForSteamGame gw appId type s) = Inr grids' \<longrightarrow>
      (\<exists>types. steamGridsCache (snd (fetchGridsForSteamGame gw appId type s)) (toString appId) = Some types
             \<and> types type = Some grids'))"
proof (intro conjI impI)
  show "steamGridsCache (snd (fetchGrids gw appId page sel s)) = steamGridsCache s"
    by (rule fetchGrids_steamGridsCache)
  show "fetchGrids gw appId page sel (s\<lparr>steamGridsCache := m\<rparr>) =
     (fst (fetchGrids gw appId page sel s), (snd (fetchGrids gw appId page sel s))\<lparr>steamGridsCache := m\<rparr>)"
    by (rule fetchGrids_steamGridsCache_upd)
  show "nonSteamGridsCache (snd (fetchGridsForSteamGame gw appId type s)) = nonSteamGridsCache s"
    by (rule fetchGridsForSteamGame_frame)
next
  assume "fst (fetchGrids gw appId page sel s) = Inr grids \<and> grids \<noteq> []"
  then show "\<exists>gid. selectedSteamGridGameId (snd (fetchGrids gw appId page sel s)) = toString gid
            \<and> cachedPage (snd (fetchGrids gw appId page sel s)) gid (gridType s) page = Some grids"
    using fetchGrids_stores by blast
next
  assume "fst (fetchGridsForSteamGame gw appId type s) = Inr grids'"
  then show "\<exists>types. steamGridsCache (snd (fetchGridsForSteamGame gw appId type s)) (toString appId) = Some types
             \<and> types type = Some grids'"
    by (rule fetchGridsForSteamGame_stores)
qed

text \<open>
  The claim as stated fails: a fetch for a native entry populates the non-native
  instance and leaves the native one empty.
\<close>

theorem fetchGrids_single_instance_counterexample:
  "currentPlatform (startState CAPSULE STEAM ''Foo'') = STEAM
 \<and> fst (fetchGrids gwFoo 100 0 None (startState CAPSULE STEAM ''Foo'')) = Inr [img1]
 \<and> cachedPage (startState CAPSULE STEAM ''Foo'') 5 CAPSULE 0 = None
 \<and> cachedPage (snd (fetchGrids gwFoo 100 0 None (startState CAPSULE STEAM ''Foo''))) 5 CAPSULE 0 = Some [img1]
 \<and> steamGridsCache (snd (fetchGrids gwFoo 100 0 None (startState CAPSULE STEAM ''Foo''))) =
     steamGridsCache (startState CAPSULE STEAM ''Foo'')
 \<and> steamGridsCache (startState CAPSULE STEAM ''Foo'') (toString 100) = None"
  by (simp add: run_defs cachedPage_def gwFoo_def gameFoo_def)

theorem fetchGrids_single_instance_witness:
  "fst (fetchGrids gwFoo 100 0 None (startState CAPSULE STEAM ''Foo'')) = Inr [img1]
 \<and> (\<exists>gid. selectedSteamGridGameId (snd (fetchGrids gwFoo 100 0 None (startState CAPSULE STEAM ''Foo''))) =
            toString gid
        \<and> cachedPage (snd (fetchGrids gwFoo 100 0 None (startState CAPSULE STEAM ''Foo''))) gid CAPSULE 0 =
            Some [img1])
 \<and> steamGridsCache (snd (fetchGrids gwFoo 100 0 None (startState CAPSULE STEAM ''Foo''))) =
     steamGridsCache (startState CAPSULE STEAM ''Foo'')
 \<and> fst (fetchGridsForSteamGame gwFoo 100 CAPSULE (startState CAPSULE STEAM ''Foo'')) = Inr []
 \<and> nonSteamGridsCache (snd (fetchGridsForSteamGame gwFoo 100 CAPSULE (startState CAPSULE STEAM ''Foo''))) =
     nonSteamGridsCache (startState CAPSULE STEAM ''Foo'')
 \<and> (\<exists>types. steamGridsCache (snd (fetchGridsForSteamGame gwFoo 100 CAPSULE (startState CAPSULE STEAM ''Foo'')))
              (toString 100) = Some types
          \<and> types CAPSULE = Some [])"
proof -
  let ?s = "startState CAPSULE STEAM ''Foo''"
  have page: "fst (fetchGrids gwFoo 100 0 None ?s) = Inr [img1]"
    by (simp add: run_defs gwFoo_def gameFoo_def)
  have native: "fst (fetchGridsForSteamGame gwFoo 100 CAPSULE ?s) = Inr []"
    by (simp add: fetchGridsForSteamGame_def clientBySteamAppId_def startState_def gwFoo_def)
  have type: "gridType ?s = CAPSULE" by (simp add: startState_def)
  show ?thesis
    using fetchGrids_single_instance [where gw = gwFoo and appId = 100 and page = 0 and sel = None
        and s = ?s and grids = "[img1]" and grids' = "[]" and type = CAPSULE]
      page native
    by (simp add: type)
qed


section \<open>Properties of the page-count placeholder\<close>

lemma find_annotated:
  "find (\<lambda>game. toString (game_id game) = sel) (map (\<lambda>game. game\<lparr>numResultPages := Some n\<rparr>) results) =
     map_option (\<lambda>game. game\<lparr>numResultPages := Some n\<rparr>)
       (find (\<lambda>game. toString (game_id game) = sel) results)"
  by (induction results) auto

text \<open>
  C6, as the code has it. \<open>getNumPages\<close> annotates every candidate with the page count
  1 and changes nothing else of it. The 3 is the fallback of the grids view, which shows
  the count of the selected candidate: with the annotated list in the search cache the
  view shows 1 when the selected id is among the candidates and 3 only when it is not.
\<close>

theorem getNumPages_placeholder:
  "(\<forall>game\<in>set (getNumPages results platform type). numResultPages game = Some 1)
 \<and> map game_id (getNumPages results platform type) = map game_id results
 \<and> map game_name (getNumPages results platform type) = map game_name results
 \<and> gridsNumPages (cache(appId \<mapsto> getNumPages results platform type)) appId selectedId =
     (if \<exists>game\<in>set results. toString (game_id game) = selectedId then 1 else 3)"
proof -
  have shown: "gridsNumPages (cache(appId \<mapsto> getNumPages results platform type)) appId selectedId =
     (if \<exists>game\<in>set results. toString (game_id game) = selectedId then 1 else 3)"
  proof (cases "find (\<lambda>game. toString (game_id game) = selectedId) results")
    case None
    then have "\<not> (\<exists>game\<in>set results. toString (game_id game) = selectedId)"
      by (simp add: find_None_iff)
    with None show ?thesis
      by (simp add: gridsNumPages_def getNumPages_def find_annotated)
  next
    case (Some game)
    then have "\<exists>game\<in>set results. toString (game_id game) = selectedId"
      by (auto simp: find_Some_iff)
    with Some show ?thesis
      by (simp add: gridsNumPages_def getNumPages_def find_annotated)
  qed
  then show ?thesis by (simp add: getNumPages_def)
qed

text \<open>The claim as stated fails: the placeholder written into a candidate is 1, not 3.\<close>

theorem getNumPages_placeholder_counterexample:
  "numResultPages (hd (getNumPages [gameFoo] STEAM CAPSULE)) = Some 1
 \<and> numResultPages (hd (getNumPages [gameFoo] STEAM CAPSULE)) \<noteq> Some 3"
  by (simp add: getNumPages_def)

theorem getNumPages_placeholder_witness:
  "map numResultPages (getNumPages [gameFoo, gameBar] STEAM CAPSULE) = [Some 1, Some 1]
 \<and> gridsNumPages [100 \<mapsto> getNumPages [gameFoo, gameBar] STEAM CAPSULE] 100 ''7'' = 1
 \<and> gridsNumPages [100 \<mapsto> getNumPages [gameFoo, gameBar] STEAM CAPSULE] 100 ''None'' = 3"
proof -
  have known: "\<exists>game\<in>set [gameFoo, gameBar]. toString (game_id game) = ''7''"
    by (simp add: gameBar_def toString_7)
  have none: "\<not> (\<exists>game\<in>set [gameFoo, gameBar]. toString (game_id game) = ''None'')"
    by (simp add: gameFoo_def gameBar_def toString_5 toString_7)
  have annotated: "map numResultPages (getNumPages [gameFoo, gameBar] STEAM CAPSULE) = [Some 1, Some 1]"
    using getNumPages_placeholder [of "[gameFoo, gameBar]" STEAM CAPSULE Map.empty 100 "''7''"]
    by (simp add: getNumPages_def)
  show ?thesis
    using getNumPages_placeholder [of "[gameFoo, gameBar]" STEAM CAPSULE Map.empty 100 "''7''"]
      getNumPages_placeholder [of "[gameFoo, gameBar]" STEAM CAPSULE Map.empty 100 "''None''"]
      known none annotated
    by simp
qed


section \<open>Properties of the disk blob store\<close>

text \<open>
  C7, as the code has it. Take a call for which no file exists at the derived local
  path. When the download resolves with the failure flag, \<open>getGridImage\<close> ends with the
  download-in-progress store back at its idle value (\<^verbatim>\<open>null\<close>), returns the derived path,
  and no file exists at that path; nothing else of the state has changed and no failure
  reaches the caller. When the download is rejected, the rejection reaches the caller
  and no path is returned.
\<close>

theorem getGridImage_download_failed:
  assumes absent: "resolveLocalPath h (gridType s) imageURL \<notin> files s"
  shows "(downloadGrid h imageURL (resolveLocalPath h (gridType s) imageURL) = Inr False \<longrightarrow>
            fst (getGridImage h appId imageURL s) = Inr (resolveLocalPath h (gridType s) imageURL)
          \<and> dowloadingGridId (snd (getGridImage h appId imageURL s)) = None
          \<and> resolveLocalPath h (gridType s) imageURL \<notin> files (snd (getGridImage h appId imageURL s))
          \<and> snd (getGridImage h appId imageURL s) = s\<lparr>dowloadingGridId := None\<rparr>)
       \<and> (downloadGrid h imageURL (resolveLocalPath h (gridType s) imageURL) = Inl e \<longrightarrow>
            fst (getGridImage h appId imageURL s) = Inl e)"
  using assms by (simp add: getGridImage_def Let_def)


lemma localPath_a: "resolveLocalPath hostOffline CAPSULE ''https://cdn2.steamgriddb.com/grid/a.png'' =
    ''/cache/grids/Capsule/a.png''"
  by (simp add: resolveLocalPath_def substring_def lastIndexOf_def hostOffline_def)

lemma localPath_a_rejecting:
  "resolveLocalPath hostRejecting CAPSULE ''https://cdn2.steamgriddb.com/grid/a.png'' =
    ''/cache/grids/Capsule/a.png''"
  by (simp add: resolveLocalPath_def substring_def lastIndexOf_def hostRejecting_def)

text \<open>
  The claim as stated fails for a download that fails by rejecting: the call ends in the
  download's error, and the store still holds the app id that line 134 wrote.
\<close>

theorem getGridImage_download_failed_counterexample:
  "resolveLocalPath hostRejecting (gridType (startState CAPSULE STEAM ''Foo''))
     ''https://cdn2.steamgriddb.com/grid/a.png'' \<notin> files (startState CAPSULE STEAM ''Foo'')
 \<and> downloadGrid hostRejecting ''https://cdn2.steamgriddb.com/grid/a.png'' ''/cache/grids/Capsule/a.png'' =
     Inl (DownloadError ''connection reset'')
 \<and> fst (getGridImage hostRejecting 100 ''https://cdn2.steamgriddb.com/grid/a.png''
      (startState CAPSULE STEAM ''Foo'')) = Inl (DownloadError ''connection reset'')
 \<and> dowloadingGridId (snd (getGridImage hostRejecting 100 ''https://cdn2.steamgriddb.com/grid/a.png''
      (startState CAPSULE STEAM ''Foo''))) = Some 100"
proof -
  have type: "gridType (startState CAPSULE STEAM ''Foo'') = CAPSULE"
    "files (startState CAPSULE STEAM ''Foo'') = {}"
    by (simp_all add: startState_def)
  have rejects: "downloadGrid hostRejecting url path = Inl (DownloadError ''connection reset'')" for url path
    by (simp add: hostRejecting_def)
  show ?thesis
    by (simp add: getGridImage_def Let_def type localPath_a_rejecting rejects)
qed

theorem getGridImage_download_failed_witness:
  "resolveLocalPath hostOffline (gridType (startState CAPSULE STEAM ''Foo''))
     ''https://cdn2.steamgriddb.com/grid/a.png'' \<notin> files (startState CAPSULE STEAM ''Foo'')
 \<and> downloadGrid hostOffline ''https://cdn2.steamgriddb.com/grid/a.png'' ''/cache/grids/Capsule/a.png'' =
     Inr False
 \<and> fst (getGridImage hostOffline 100 ''https://cdn2.steamgriddb.com/grid/a.png''
      (startState CAPSULE STEAM ''Foo'')) = Inr ''/cache/grids/Capsule/a.png''
 \<and> dowloadingGridId (snd (getGridImage hostOffline 100 ''https://cdn2.steamgriddb.com/grid/a.png''
      (startState CAPSULE STEAM ''Foo''))) = None
 \<and> ''/cache/grids/Capsule/a.png'' \<notin> files (snd (getGridImage hostOffline 100
      ''https://cdn2.steamgriddb.com/grid/a.png'' (startState CAPSULE STEAM ''Foo'')))
 \<and> resolveLocalPath hostRejecting (gridType (startState CAPSULE STEAM ''Foo''))
     ''https://cdn2.steamgriddb.com/grid/a.png'' \<notin> files (startState CAPSULE STEAM ''Foo'')
 \<and> downloadGrid hostRejecting ''https://cdn2.steamgriddb.com/grid/a.png'' ''/cache/grids/Capsule/a.png'' =
     Inl (DownloadError ''connection reset'')
 \<and> fst (getGridImage hostRejecting 100 ''https://cdn2.steamgriddb.com/grid/a.png''
      (startState CAPSULE STEAM ''Foo'')) = Inl (DownloadError ''connection reset'')"
proof -
  let ?s = "startState CAPSULE STEAM ''Foo''"
  let ?url = "''https://cdn2.steamgriddb.com/grid/a.png''"
  have type: "gridType ?s = CAPSULE" by (simp add: startState_def)
  have absent: "resolveLocalPath hostOffline (gridType ?s) ?url \<notin> files ?s"
    by (simp add: startState_def)
  have absent': "resolveLocalPath hostRejecting (gridType ?s) ?url \<notin> files ?s"
    by (simp add: startState_def)
  have failed: "downloadGrid hostOffline ?url ''/cache/grids/Capsule/a.png'' = Inr False"
    by (simp add: hostOffline_def)
  have rejected: "downloadGrid hostRejecting ?url ''/cache/grids/Capsule/a.png'' =
      Inl (DownloadError ''connection reset'')"
    by (simp add: hostRejecting_def)
  show ?thesis
    using getGridImage_download_failed [OF absent, where appId = 100
        and e = "DownloadError ''connection reset''"]
      getGridImage_download_failed [OF absent', where appId = 100
        and e = "DownloadError ''connection reset''"]
      absent absent' failed rejected
    by (simp add: type localPath_a localPath_a_rejecting)
qed

lemma lastIndexFrom_absent: "c \<notin> set s \<Longrightarrow> lastIndexFrom s c i found = found"
  by (induction s arbitrary: i) auto

lemma lastIndexFrom_last:
  "c \<notin> set name \<Longrightarrow> lastIndexFrom (pre @ c # name) c i found = i + int (length pre)"
  by (induction pre arbitrary: i found) (auto simp: lastIndexFrom_absent)

lemma lastIndexOf_absent: "c \<notin> set s \<Longrightarrow> lastIndexOf s c = - 1"
  by (simp add: lastIndexOf_def lastIndexFrom_absent)

lemma lastIndexOf_last: "c \<notin> set name \<Longrightarrow> lastIndexOf (pre @ c # name) c = int (length pre)"
  by (simp add: lastIndexOf_def lastIndexFrom_last)

text \<open>
  What \<open>getGridImage\<close> returns: the derived path, unless the file is absent and the
  download is rejected.
\<close>

lemma getGridImage_returns:
  "fst (getGridImage h appId url s) =
     (if resolveLocalPath h (gridType s) url \<in> files s then Inr (resolveLocalPath h (gridType s) url)
      else case downloadGrid h url (resolveLocalPath h (gridType s) url) of
             Inl e \<Rightarrow> Inl e
           | Inr success \<Rightarrow> Inr (resolveLocalPath h (gridType s) url))"
  by (simp add: getGridImage_def Let_def split: sum.splits)

text \<open>
  C8. The local path is a function of the cache directory, the grid type and the URL
  alone, so equal inputs give equal paths. It is \<^verbatim>\<open>path.join\<close> of the cache directory,
  the grid type's directory and the part of the URL after its last slash (the whole URL
  when it has none). Two URLs that end in the same slash-free name therefore get the same
  path under the same grid type, whatever stands before the last slash; and this path is
  what \<open>getGridImage\<close> looks for on disk, hands to the download and returns whenever it
  returns a path.
\<close>

theorem resolveLocalPath_basename:
  assumes "CHR ''/'' \<notin> set name"
  shows "resolveLocalPath h type (pre @ CHR ''/'' # name) =
           pathJoin h [gridCacheDirPath h, gridTypeString type, name]
       \<and> resolveLocalPath h type name = pathJoin h [gridCacheDirPath h, gridTypeString type, name]
       \<and> resolveLocalPath h type (pre @ CHR ''/'' # name) = resolveLocalPath h type (pre' @ CHR ''/'' # name)
       \<and> fst (getGridImage h appId (pre @ CHR ''/'' # name) s) =
           (if pathJoin h [gridCacheDirPath h, gridTypeString (gridType s), name] \<in> files s
            then Inr (pathJoin h [gridCacheDirPath h, gridTypeString (gridType s), name])
            else case downloadGrid h (pre @ CHR ''/'' # name)
                        (pathJoin h [gridCacheDirPath h, gridTypeString (gridType s), name]) of
                   Inl e \<Rightarrow> Inl e
                 | Inr success \<Rightarrow> Inr (pathJoin h [gridCacheDirPath h, gridTypeString (gridType s), name]))"
proof -
  have last: "substring (p @ CHR ''/'' # name) (lastIndexOf (p @ CHR ''/'' # name) CHR ''/'' + 1) = name" for p
    using assms by (simp add: lastIndexOf_last substring_def nat_add_distrib)
  have whole: "substring name (lastIndexOf name CHR ''/'' + 1) = name"
    using assms by (simp add: lastIndexOf_absent substring_def)
  have path: "resolveLocalPath h t (p @ CHR ''/'' # name) =
      pathJoin h [gridCacheDirPath h, gridTypeString t, name]" for p t
    by (simp add: resolveLocalPath_def last)
  have returned: "fst (getGridImage h appId (pre @ CHR ''/'' # name) s) =
           (if pathJoin h [gridCacheDirPath h, gridTypeString (gridType s), name] \<in> files s
            then Inr (pathJoin h [gridCacheDirPath h, gridTypeString (gridType s), name])
            else case downloadGrid h (pre @ CHR ''/'' # name)
                        (pathJoin h [gridCacheDirPath h, gridTypeString (gridType s), name]) of
                   Inl e \<Rightarrow> Inl e
                 | Inr success \<Rightarrow> Inr (pathJoin h [gridCacheDirPath h, gridTypeString (gridType s), name]))"
    by (simp add: getGridImage_returns path cong: sum.case_cong)
  have short: "resolveLocalPath h type name = pathJoin h [gridCacheDirPath h, gridTypeString type, name]"
    by (simp add: resolveLocalPath_def whole)
  from path [of type pre] path [of type pre'] short returned show ?thesis
    by simp
qed

theorem resolveLocalPath_basename_witness:
  "CHR ''/'' \<notin> set ''a.png''
 \<and> resolveLocalPath hostOffline CAPSULE ''https://cdn2.steamgriddb.com/grid/a.png'' =
     ''/cache/grids/Capsule/a.png''
 \<and> resolveLocalPath hostOffline CAPSULE ''https://cdn2.steamgriddb.com/thumb/a.png'' =
     ''/cache/grids/Capsule/a.png''
 \<and> ''https://cdn2.steamgriddb.com/grid/a.png'' \<noteq> ''https://cdn2.steamgriddb.com/thumb/a.png''"
proof -
  have name: "CHR ''/'' \<notin> set ''a.png''" by simp
  have join: "pathJoin hostOffline [gridCacheDirPath hostOffline, ''Capsule'', ''a.png''] =
      ''/cache/grids/Capsule/a.png''"
    by (simp add: hostOffline_def)
  note T = resolveLocalPath_basename [OF name, where h = hostOffline and type = CAPSULE
        and pre = "''https://cdn2.steamgriddb.com/grid''"
        and pre' = "''https://cdn2.steamgriddb.com/thumb''"
        and appId = 100 and s = "startState CAPSULE STEAM ''Foo''"]
  have grid: "resolveLocalPath hostOffline CAPSULE ''https://cdn2.steamgriddb.com/grid/a.png'' =
      ''/cache/grids/Capsule/a.png''"
    using T [THEN conjunct1] by (simp add: join)
  have same: "resolveLocalPath hostOffline CAPSULE ''https://cdn2.steamgriddb.com/grid/a.png'' =
      resolveLocalPath hostOffline CAPSULE ''https://cdn2.steamgriddb.com/thumb/a.png''"
    using T [THEN conjunct2, THEN conjunct2, THEN conjunct1] by simp
  have thumb: "resolveLocalPath hostOffline CAPSULE ''https://cdn2.steamgriddb.com/thumb/a.png'' =
      ''/cache/grids/Capsule/a.png''"
    unfolding same [symmetric] by (rule grid)
  from name grid thumb show ?thesis by simp
qed

end
